theory Spec2Isabelle
  imports Complex_Main "HOL-Library.Sublist"
begin

section \<open>The prompt parser of the trip planner\<close>

text \<open>
  The development embeds \<^verbatim>\<open>src/utils/promptParser.ts\<close> (class \<^verbatim>\<open>AIPromptParser\<close>) and the
  function \<^verbatim>\<open>handleClarificationAnswer\<close> of \<^verbatim>\<open>components/wizard/AIItineraryWizard.tsx\<close>.

  Conventions of the embedding:
  \<^item> a JavaScript string is a \<open>string\<close>, a list of code units below 256 (the characters
    of ISO 8859-1); white space, \<^verbatim>\<open>\s\<close> and the lower case of a character are those of
    JavaScript on these code units, and text with a code unit from 256 on is outside the
    type;
  \<^item> a confidence (a JavaScript number written as a decimal fraction) is a \<open>real\<close>:
    the arithmetic is exact where the program rounds to a double;
  \<^item> a day count is a \<open>number\<close>: an integer or \<open>NaN\<close>; the model agrees with the program
    on the integers that a double holds exactly (magnitude at most \<open>2^53\<close>);
  \<^item> a \<^verbatim>\<open>RegExp\<close> object is a record of its pattern and its mutable \<^verbatim>\<open>lastIndex\<close>;
    the static table \<^verbatim>\<open>durationPatterns\<close> is therefore state, passed in and returned.
\<close>

subsection \<open>Data model\<close>

datatype accommodation = hotel | camping

datatype pace = relaxed | moderate | fast

datatype priority = high | medium | low

datatype number = Num int | NaN

record ParsingConfidence =
  overall :: real
  c_destination :: real
  c_duration :: real
  c_interests :: real
  c_accommodationType :: real
  c_pace :: real

record ParsedPreferences =
  destination :: string
  duration :: number
  interests :: "string list"
  accommodationType :: "accommodation option"
  pace :: "pace option"
  confidence :: ParsingConfidence

text \<open>\<^verbatim>\<open>keyof ParsedPreferences\<close>\<close>

datatype field =
  F_destination | F_duration | F_interests | F_accommodationType | F_pace | F_confidence

record ClarificationQuestion =
  q_field :: field
  question :: string
  suggestions :: "string list"
  q_priority :: priority

subsection \<open>Strings\<close>

text \<open>The letters of \<^verbatim>\<open>[a-zA-Z]\<close>.\<close>

definition upper_letters :: string where
  "upper_letters = ''ABCDEFGHIJKLMNOPQRSTUVWXYZ''"

definition lower_letters :: string where
  "lower_letters = ''abcdefghijklmnopqrstuvwxyz''"

text \<open>
  The other letters below 256 that have two cases: \<open>0xC0\<close> to \<open>0xDE\<close> without the
  multiplication sign \<open>0xD7\<close>, and their lower case \<open>0xE0\<close> to \<open>0xFE\<close> without the division
  sign \<open>0xF7\<close>.
\<close>

definition latin1_upper :: string where
  "latin1_upper =
    [CHR 0xC0, CHR 0xC1, CHR 0xC2, CHR 0xC3, CHR 0xC4, CHR 0xC5, CHR 0xC6, CHR 0xC7,
     CHR 0xC8, CHR 0xC9, CHR 0xCA, CHR 0xCB, CHR 0xCC, CHR 0xCD, CHR 0xCE, CHR 0xCF,
     CHR 0xD0, CHR 0xD1, CHR 0xD2, CHR 0xD3, CHR 0xD4, CHR 0xD5, CHR 0xD6, CHR 0xD8,
     CHR 0xD9, CHR 0xDA, CHR 0xDB, CHR 0xDC, CHR 0xDD, CHR 0xDE]"

definition latin1_lower :: string where
  "latin1_lower =
    [CHR 0xE0, CHR 0xE1, CHR 0xE2, CHR 0xE3, CHR 0xE4, CHR 0xE5, CHR 0xE6, CHR 0xE7,
     CHR 0xE8, CHR 0xE9, CHR 0xEA, CHR 0xEB, CHR 0xEC, CHR 0xED, CHR 0xEE, CHR 0xEF,
     CHR 0xF0, CHR 0xF1, CHR 0xF2, CHR 0xF3, CHR 0xF4, CHR 0xF5, CHR 0xF6, CHR 0xF8,
     CHR 0xF9, CHR 0xFA, CHR 0xFB, CHR 0xFC, CHR 0xFD, CHR 0xFE]"

definition is_upper :: "char \<Rightarrow> bool" where
  "is_upper c = (c \<in> set upper_letters)"

definition is_lower :: "char \<Rightarrow> bool" where
  "is_lower c = (c \<in> set lower_letters)"

definition is_digit :: "char \<Rightarrow> bool" where
  "is_digit c = (c \<in> set ''0123456789'')"

text \<open>
  White space (\<^verbatim>\<open>\s\<close>, and what \<^verbatim>\<open>trim\<close> and \<^verbatim>\<open>parseInt\<close> skip): tab, line feed,
  vertical tab, form feed, carriage return, space and the no-break space \<open>0xA0\<close>.
\<close>

definition is_space :: "char \<Rightarrow> bool" where
  "is_space c =
     (c \<in> set [CHR 0x09, CHR 0x0A, CHR 0x0B, CHR 0x0C, CHR 0x0D, CHR '' '', CHR 0xA0])"

text \<open>\<^verbatim>\<open>toLowerCase\<close> on one character.\<close>

definition lower_char :: "char \<Rightarrow> char" where
  "lower_char c =
     (case map_of (zip (upper_letters @ latin1_upper) (lower_letters @ latin1_lower)) c of
        Some l \<Rightarrow> l
      | None \<Rightarrow> c)"

text \<open>
  \<^verbatim>\<open>toUpperCase\<close> on one character. The capitals of \<open>0xB5\<close>, \<open>0xDF\<close> and \<open>0xFF\<close> are not
  code units below 256; the program capitalises words of the tables and words captured by
  \<^verbatim>\<open>[a-zA-Z\s,]+?\<close> only, which do not begin with them.
\<close>

definition upper_char :: "char \<Rightarrow> char" where
  "upper_char c =
     (case map_of (zip (lower_letters @ latin1_lower) (upper_letters @ latin1_upper)) c of
        Some u \<Rightarrow> u
      | None \<Rightarrow> c)"

definition toLowerCase :: "string \<Rightarrow> string" where
  "toLowerCase s = map lower_char s"

text \<open>\<^verbatim>\<open>s.includes(sub)\<close>: \<open>sub\<close> occurs in \<open>s\<close> as a contiguous substring.\<close>

definition str_includes :: "string \<Rightarrow> string \<Rightarrow> bool" where
  "str_includes s sub = sublist sub s"

text \<open>\<^verbatim>\<open>s.trim()\<close>\<close>

definition trim :: "string \<Rightarrow> string" where
  "trim s = rev (dropWhile is_space (rev (dropWhile is_space s)))"

text \<open>\<^verbatim>\<open>s.split(' ')\<close> and \<^verbatim>\<open>ws.join(' ')\<close>\<close>

fun split_sp :: "string \<Rightarrow> string list" where
  "split_sp [] = [[]]"
| "split_sp (c # cs) =
     (if c = CHR '' '' then [] # split_sp cs
      else (case split_sp cs of w # ws \<Rightarrow> (c # w) # ws | [] \<Rightarrow> [[c]]))"

fun join_sp :: "string list \<Rightarrow> string" where
  "join_sp [] = []"
| "join_sp [w] = w"
| "join_sp (w # ws) = w @ CHR '' '' # join_sp ws"

text \<open>\<^verbatim>\<open>word.charAt(0).toUpperCase() + word.slice(1)\<close>\<close>

fun capitalize :: "string \<Rightarrow> string" where
  "capitalize [] = []"
| "capitalize (c # cs) = upper_char c # cs"

definition titleCase :: "string \<Rightarrow> string" where
  "titleCase s = join_sp (map capitalize (split_sp s))"

subsection \<open>Numbers\<close>

definition truthy :: "number \<Rightarrow> bool" where
  "truthy x = (case x of Num n \<Rightarrow> n \<noteq> 0 | NaN \<Rightarrow> False)"

text \<open>
  The integers that a double holds exactly; on these the arithmetic of the model is that
  of the program.
\<close>

definition exact_integer :: "number \<Rightarrow> bool" where
  "exact_integer x = (case x of Num n \<Rightarrow> \<bar>n\<bar> \<le> 2 ^ 53 | NaN \<Rightarrow> True)"

definition times :: "number \<Rightarrow> int \<Rightarrow> number" where
  "times x m = (case x of Num n \<Rightarrow> Num (n * m) | NaN \<Rightarrow> NaN)"

text \<open>\<^verbatim>\<open>Math.ceil((min + max) / 2)\<close>\<close>

definition ceil_avg :: "number \<Rightarrow> number \<Rightarrow> number" where
  "ceil_avg x y =
     (case (x, y) of (Num a, Num b) \<Rightarrow> Num \<lceil>real_of_int (a + b) / 2\<rceil> | _ \<Rightarrow> NaN)"

text \<open>The value of a digit of base 10 or 16.\<close>

definition digit_val :: "char \<Rightarrow> nat" where
  "digit_val c =
     (case map_of (zip ''0123456789abcdef'' [0 ..< 16]) (lower_char c) of
        Some v \<Rightarrow> v
      | None \<Rightarrow> 0)"

definition is_hex_digit :: "char \<Rightarrow> bool" where
  "is_hex_digit c = (lower_char c \<in> set ''0123456789abcdef'')"

definition digits_value :: "nat \<Rightarrow> string \<Rightarrow> int" where
  "digits_value radix ds = int (foldl (\<lambda>acc c. acc * radix + digit_val c) 0 ds)"

text \<open>
  \<^verbatim>\<open>parseInt(s)\<close> without a radix: leading white space is skipped, a sign is read, a
  prefix \<^verbatim>\<open>0x\<close> selects base 16, and the longest run of digits is converted; no digit
  gives \<open>NaN\<close>.
\<close>

definition parseInt :: "string \<Rightarrow> number" where
  "parseInt s =
     (let t = dropWhile is_space s;
          sgn = (case t of c # _ \<Rightarrow> if c = CHR ''-'' then (- 1 :: int) else 1 | [] \<Rightarrow> 1);
          u = (case t of c # r \<Rightarrow> if c = CHR ''-'' \<or> c = CHR ''+'' then r else t | [] \<Rightarrow> t);
          hex = (take 2 u = ''0x'' \<or> take 2 u = ''0X'');
          v = (if hex then drop 2 u else u);
          ds = takeWhile (if hex then is_hex_digit else is_digit) v
      in if ds = [] then NaN else Num (sgn * digits_value (if hex then 16 else 10) ds))"

subsection \<open>Regular expressions\<close>

text \<open>
  The character classes and the constructs that the patterns of the parser use. A
  quantifier always applies to a character class or (\<open>Opt\<close>) to a sub-pattern.
\<close>

datatype cls = Digit | Space | AlphaSpaceComma

fun in_cls :: "cls \<Rightarrow> char \<Rightarrow> bool" where
  "in_cls Digit c = is_digit c"
| "in_cls Space c = is_space c"
| "in_cls AlphaSpaceComma c = (is_lower c \<or> is_upper c \<or> is_space c \<or> c = CHR '','')"

datatype rx =
    Lit string
  | One cls
  | Star cls
  | Plus cls
  | LazyPlus cls
  | Opt rx
  | Alt "rx list"
  | Seq "rx list"
  | Grp rx
  | Eos

text \<open>A literal matches a prefix of the rest, ignoring case under the flag \<^verbatim>\<open>i\<close>.\<close>

fun lit_prefix :: "bool \<Rightarrow> string \<Rightarrow> string \<Rightarrow> bool" where
  "lit_prefix ic [] s = True"
| "lit_prefix ic (l # ls) [] = False"
| "lit_prefix ic (l # ls) (c # cs) =
     (if l = c then lit_prefix ic ls cs
      else if ic then (if lower_char l = lower_char c then lit_prefix ic ls cs else False)
      else False)"

text \<open>
  The backtracking matcher as a list of successes: \<open>matches ic r (rest, caps)\<close> lists, in
  the order in which a backtracking engine tries them, every way in which \<open>r\<close> matches a
  prefix of \<open>rest\<close>; each is the text left over and the captures so far. The engine's
  answer is the head of the list.
\<close>

fun matches :: "bool \<Rightarrow> rx \<Rightarrow> string \<times> string list \<Rightarrow> (string \<times> string list) list" where
  "matches ic (Lit l) (rest, caps) =
     (if lit_prefix ic l rest then [(drop (length l) rest, caps)] else [])"
| "matches ic (One c) (rest, caps) =
     (case rest of x # xs \<Rightarrow> if in_cls c x then [(xs, caps)] else [] | [] \<Rightarrow> [])"
| "matches ic (Star c) (rest, caps) =
     map (\<lambda>k. (drop k rest, caps)) (rev [0 ..< Suc (length (takeWhile (in_cls c) rest))])"
| "matches ic (Plus c) (rest, caps) =
     map (\<lambda>k. (drop k rest, caps)) (rev [1 ..< Suc (length (takeWhile (in_cls c) rest))])"
| "matches ic (LazyPlus c) (rest, caps) =
     map (\<lambda>k. (drop k rest, caps)) [1 ..< Suc (length (takeWhile (in_cls c) rest))]"
| "matches ic (Opt r) st = matches ic r st @ [st]"
| "matches ic (Alt rs) st = concat (map (\<lambda>r. matches ic r st) rs)"
| "matches ic (Seq []) st = [st]"
| "matches ic (Seq (r # rs)) st = concat (map (matches ic (Seq rs)) (matches ic r st))"
| "matches ic (Grp r) (rest, caps) =
     map (\<lambda>(rest', caps'). (rest', caps' @ [take (length rest - length rest') rest]))
       (matches ic r (rest, caps))"
| "matches ic Eos (rest, caps) = (if rest = [] then [(rest, caps)] else [])"

text \<open>
  The leftmost match at or after the start of \<open>rest\<close>: the text from the match on, the
  text left after it, and the captures.
\<close>

fun search :: "bool \<Rightarrow> rx \<Rightarrow> string \<Rightarrow> (string \<times> string \<times> string list) option" where
  "search ic r rest =
     (case matches ic r (rest, []) of
        (rest', caps) # _ \<Rightarrow> Some (rest, rest', caps)
      | [] \<Rightarrow> (case rest of [] \<Rightarrow> None | _ # xs \<Rightarrow> search ic r xs))"

record regexp =
  source :: rx
  ignoreCase :: bool
  lastIndex :: nat

text \<open>
  \<^verbatim>\<open>re.exec(s)\<close> for a pattern with the flag \<^verbatim>\<open>g\<close>: the search starts at \<open>lastIndex\<close>; a
  match returns the array of the matched text and the groups and moves \<open>lastIndex\<close> to the
  end of the match; a failure returns \<open>null\<close> and sets \<open>lastIndex\<close> to 0.
\<close>

definition exec :: "regexp \<Rightarrow> string \<Rightarrow> string list option \<times> regexp" where
  "exec re s =
     (if lastIndex re > length s then (None, re\<lparr>lastIndex := 0\<rparr>)
      else (case search (ignoreCase re) (source re) (drop (lastIndex re) s) of
              None \<Rightarrow> (None, re\<lparr>lastIndex := 0\<rparr>)
            | Some (from, rest', caps) \<Rightarrow>
                (Some (take (length from - length rest') from # caps),
                 re\<lparr>lastIndex := length s - length rest'\<rparr>)))"

text \<open>\<^verbatim>\<open>re.test(s)\<close> is \<^verbatim>\<open>re.exec(s) !== null\<close>.\<close>

definition test :: "regexp \<Rightarrow> string \<Rightarrow> bool \<times> regexp" where
  "test re s = (case exec re s of (m, re') \<Rightarrow> (m \<noteq> None, re'))"

text \<open>
  \<^verbatim>\<open>match[i]\<close>. A group that is missing reads as the empty string here: the program only
  tests the value for truth or passes it to \<^verbatim>\<open>parseInt\<close>, and \<^verbatim>\<open>undefined\<close> and the
  empty string behave alike in both.
\<close>

definition grp :: "string list \<Rightarrow> nat \<Rightarrow> string" where
  "grp m i = (if i < length m then m ! i else [])"

subsection \<open>The tables of the parser\<close>

definition destinations :: "string list" where
  "destinations =
    [''california'', ''florida'', ''texas'', ''new york'', ''washington'', ''oregon'',
     ''colorado'', ''arizona'', ''nevada'', ''utah'', ''montana'', ''wyoming'',
     ''north carolina'', ''south carolina'', ''georgia'', ''virginia'', ''maine'',
     ''new hampshire'', ''vermont'', ''massachusetts'', ''connecticut'', ''rhode island'',
     ''new england'', ''pacific northwest'', ''southwest'', ''midwest'', ''great lakes'',
     ''appalachian'', ''san francisco'', ''los angeles'', ''seattle'', ''portland'',
     ''denver'', ''chicago'', ''new york city'', ''boston'', ''washington dc'', ''miami'',
     ''orlando'', ''austin'', ''dallas'', ''houston'', ''phoenix'', ''las vegas'',
     ''salt lake city'', ''minneapolis'', ''detroit'', ''atlanta'', ''charlotte'',
     ''nashville'', ''yellowstone'', ''yosemite'', ''grand canyon'', ''zion'', ''arches'',
     ''bryce canyon'', ''glacier'', ''great smoky mountains'', ''acadia'', ''olympic'',
     ''mount rainier'', ''crater lake'', ''sequoia'', ''joshua tree'', ''death valley'',
     ''big sur'', ''napa valley'', ''blue ridge parkway'', ''europe'', ''france'',
     ''germany'', ''italy'', ''spain'', ''england'', ''scotland'', ''ireland'', ''norway'',
     ''sweden'', ''denmark'', ''netherlands'', ''switzerland'', ''austria'', ''canada'',
     ''british columbia'', ''alberta'', ''ontario'', ''quebec'', ''australia'',
     ''new zealand'', ''japan'']"

definition interests_vocabulary :: "string list" where
  "interests_vocabulary =
    [''nature'', ''hiking'', ''national parks'', ''beaches'', ''mountains'', ''forests'',
     ''wildlife'', ''camping'', ''history'', ''museums'', ''architecture'', ''culture'',
     ''art'', ''galleries'', ''monuments'', ''historic sites'', ''food'', ''restaurants'',
     ''wineries'', ''breweries'', ''local cuisine'', ''farmers markets'', ''adventure'',
     ''outdoor activities'', ''rock climbing'', ''kayaking'', ''fishing'', ''skiing'',
     ''cycling'', ''photography'', ''scenic drives'', ''viewpoints'', ''landscapes'',
     ''sunsets'', ''waterfalls'', ''cities'', ''urban exploration'', ''nightlife'',
     ''shopping'', ''entertainment'', ''theaters'', ''relaxation'', ''spas'',
     ''hot springs'', ''meditation'', ''wellness'', ''yoga retreats'', ''family'',
     ''kids'', ''theme parks'', ''zoos'', ''aquariums'', ''family-friendly'', ''budget'',
     ''luxury'', ''off the beaten path'', ''hidden gems'', ''local experiences'']"

text \<open>
  An entry of \<^verbatim>\<open>durationPatterns\<close>: the pattern object and the optional properties
  \<^verbatim>\<open>multiplier\<close>, \<^verbatim>\<open>value\<close> and \<^verbatim>\<open>range\<close> (an absent \<^verbatim>\<open>range\<close> is false).
\<close>

record dpattern =
  d_pattern :: regexp
  d_multiplier :: "int option"
  d_value :: "int option"
  d_range :: bool

text \<open>A pattern written with the flags \<^verbatim>\<open>gi\<close>, as the literal creates it.\<close>

definition regexp_g :: "rx \<Rightarrow> regexp" where
  "regexp_g r = \<lparr>source = r, ignoreCase = True, lastIndex = 0\<rparr>"

text \<open>The table as the class holds it when the module is loaded.\<close>

definition durationPatterns :: "dpattern list" where
  "durationPatterns =
    [\<lparr>d_pattern = regexp_g (Seq [Grp (Plus Digit), Star Space, Lit ''day'', Opt (Lit ''s'')]),
      d_multiplier = Some 1, d_value = None, d_range = False\<rparr>,
     \<lparr>d_pattern = regexp_g (Seq [Grp (Plus Digit), Star Space, Lit ''week'', Opt (Lit ''s'')]),
      d_multiplier = Some 7, d_value = None, d_range = False\<rparr>,
     \<lparr>d_pattern = regexp_g (Seq [Grp (Plus Digit), Star Space, Lit ''month'', Opt (Lit ''s'')]),
      d_multiplier = Some 30, d_value = None, d_range = False\<rparr>,
     \<lparr>d_pattern = regexp_g (Seq [Grp (Alt [Lit ''one'', Lit ''a'']), Plus Space, Lit ''day'']),
      d_multiplier = None, d_value = Some 1, d_range = False\<rparr>,
     \<lparr>d_pattern = regexp_g (Seq [Grp (Lit ''two''), Plus Space, Lit ''day'', Opt (Lit ''s'')]),
      d_multiplier = None, d_value = Some 2, d_range = False\<rparr>,
     \<lparr>d_pattern = regexp_g (Seq [Grp (Lit ''three''), Plus Space, Lit ''day'', Opt (Lit ''s'')]),
      d_multiplier = None, d_value = Some 3, d_range = False\<rparr>,
     \<lparr>d_pattern = regexp_g (Seq [Grp (Lit ''four''), Plus Space, Lit ''day'', Opt (Lit ''s'')]),
      d_multiplier = None, d_value = Some 4, d_range = False\<rparr>,
     \<lparr>d_pattern = regexp_g (Seq [Grp (Lit ''five''), Plus Space, Lit ''day'', Opt (Lit ''s'')]),
      d_multiplier = None, d_value = Some 5, d_range = False\<rparr>,
     \<lparr>d_pattern = regexp_g (Seq [Grp (Lit ''six''), Plus Space, Lit ''day'', Opt (Lit ''s'')]),
      d_multiplier = None, d_value = Some 6, d_range = False\<rparr>,
     \<lparr>d_pattern = regexp_g (Seq [Grp (Alt [Lit ''seven'', Seq [Lit ''a'', Plus Space, Lit ''week'']]),
           Plus Space, Lit ''day'', Opt (Lit ''s'')]),
      d_multiplier = None, d_value = Some 7, d_range = False\<rparr>,
     \<lparr>d_pattern = regexp_g (Seq [Grp (Alt [Lit ''one'', Lit ''a'']), Plus Space, Lit ''week'']),
      d_multiplier = None, d_value = Some 7, d_range = False\<rparr>,
     \<lparr>d_pattern = regexp_g (Seq [Grp (Lit ''two''), Plus Space, Lit ''week'', Opt (Lit ''s'')]),
      d_multiplier = None, d_value = Some 14, d_range = False\<rparr>,
     \<lparr>d_pattern = regexp_g (Seq [Grp (Plus Digit), Lit ''-'', Grp (Plus Digit), Star Space, Lit ''day'',
           Opt (Lit ''s'')]),
      d_multiplier = None, d_value = None, d_range = True\<rparr>,
     \<lparr>d_pattern = regexp_g (Seq [Grp (Plus Digit), Star Space, Lit ''to'', Star Space, Grp (Plus Digit),
           Star Space, Lit ''day'', Opt (Lit ''s'')]),
      d_multiplier = None, d_value = None, d_range = True\<rparr>,
     \<lparr>d_pattern = regexp_g (Lit ''weekend''),
      d_multiplier = None, d_value = Some 2, d_range = False\<rparr>,
     \<lparr>d_pattern = regexp_g (Seq [Lit ''long'', Plus Space, Lit ''weekend'']),
      d_multiplier = None, d_value = Some 3, d_range = False\<rparr>,
     \<lparr>d_pattern = regexp_g (Seq [Lit ''short'', Plus Space, Lit ''trip'']),
      d_multiplier = None, d_value = Some 2, d_range = False\<rparr>,
     \<lparr>d_pattern = regexp_g (Seq [Lit ''quick'', Plus Space, Lit ''trip'']),
      d_multiplier = None, d_value = Some 1, d_range = False\<rparr>,
     \<lparr>d_pattern = regexp_g (Seq [Lit ''extended'', Plus Space, Lit ''trip'']),
      d_multiplier = None, d_value = Some 10, d_range = False\<rparr>,
     \<lparr>d_pattern = regexp_g (Seq [Lit ''road'', Plus Space, Lit ''trip'']),
      d_multiplier = None, d_value = Some 7, d_range = False\<rparr>]"

definition uiTagMap :: "(string \<times> string list) list" where
  "uiTagMap =
    [(''Nature & Wildlife'',
      [''nature'', ''wildlife'', ''outdoors'', ''forests'', ''animals'', ''parks'',
       ''scenic drives'', ''waterfalls'']),
     (''Historical Sites'',
      [''history'', ''historic sites'', ''monuments'', ''heritage'', ''ancient'',
       ''historical'', ''historic'']),
     (''Food & Dining'',
      [''food'', ''restaurants'', ''cuisine'', ''dining'', ''local food'', ''culinary'',
       ''farmers markets'', ''coffee'', ''local cuisine'']),
     (''Adventure Sports'',
      [''adventure'', ''rock climbing'', ''kayaking'', ''skiing'', ''outdoor activities'',
       ''sports'', ''extreme'', ''rafting'', ''climbing'']),
     (''Art & Culture'',
      [''art'', ''culture'', ''galleries'', ''cultural'', ''museums'', ''exhibitions'',
       ''theaters'', ''performances'']),
     (''Photography'',
      [''photography'', ''photo'', ''scenic'', ''viewpoints'', ''landscapes'',
       ''instagram'', ''sunsets'']),
     (''Wine & Breweries'',
      [''wine'', ''wineries'', ''breweries'', ''beer'', ''tasting'', ''vineyards'']),
     (''Museums'',
      [''museums'', ''exhibits'', ''collections'', ''science'', ''technology'']),
     (''Beaches & Coast'',
      [''beaches'', ''coast'', ''ocean'', ''seaside'', ''coastal'', ''waterfront'',
       ''coastline'', ''surfing'']),
     (''Mountains'',
      [''mountains'', ''peaks'', ''alpine'', ''elevation'', ''summit'', ''hiking'',
       ''trails'']),
     (''Local Markets'',
      [''markets'', ''shopping'', ''local'', ''crafts'', ''souvenirs'']),
     (''Music Venues'',
      [''music'', ''concerts'', ''venues'', ''live music'', ''festivals'', ''entertainment'']),
     (''Wellness & Relaxation'',
      [''relaxation'', ''spas'', ''hot springs'', ''wellness'', ''yoga'']),
     (''Family Friendly'',
      [''family'', ''kids'', ''theme parks'', ''zoos'', ''aquariums'', ''family-friendly''])]"

subsection \<open>extractDestination\<close>

text \<open>
  The three patterns are regular expression literals of the function body, so every call
  creates them anew, with \<open>lastIndex = 0\<close>:
  \<^verbatim>\<open>/(?:to|visit|explore|see|trip to|travel to|drive to|go to)\s+([a-zA-Z\s,]+?)(?:\s|,|\.|\?|!|$)/gi\<close>,
  \<^verbatim>\<open>/(?:around|through|across)\s+([a-zA-Z\s,]+?)(?:\s|,|\.|\?|!|$)/gi\<close> and
  \<^verbatim>\<open>/(?:in|from)\s+([a-zA-Z\s,]+?)(?:\s|,|\.|\?|!|$)/gi\<close>.
\<close>

definition terminator :: rx where
  "terminator = Alt [One Space, Lit '','', Lit ''.'', Lit ''?'', Lit ''!'', Eos]"

definition to_word_strings :: "string list" where
  "to_word_strings =
    [''to'', ''visit'', ''explore'', ''see'', ''trip to'', ''travel to'', ''drive to'',
     ''go to'']"

definition to_words :: "rx list" where
  "to_words = map Lit to_word_strings"

definition to_pattern :: rx where
  "to_pattern = Seq [Alt to_words, Plus Space, Grp (LazyPlus AlphaSpaceComma), terminator]"

definition around_pattern :: rx where
  "around_pattern =
     Seq [Alt [Lit ''around'', Lit ''through'', Lit ''across''], Plus Space,
          Grp (LazyPlus AlphaSpaceComma), terminator]"

definition in_pattern :: rx where
  "in_pattern =
     Seq [Alt [Lit ''in'', Lit ''from''], Plus Space, Grp (LazyPlus AlphaSpaceComma),
          terminator]"

definition destination_patterns :: "rx list" where
  "destination_patterns = [to_pattern, around_pattern, in_pattern]"

definition stoplist :: "string list" where
  "stoplist = [''the'', ''and'', ''or'', ''with'', ''for'', ''my'', ''a'', ''an'']"

fun destination_loop :: "rx list \<Rightarrow> string \<Rightarrow> string option" where
  "destination_loop [] prompt = None"
| "destination_loop (r # rs) prompt =
     (case fst (exec (regexp_g r) prompt) of
        Some m \<Rightarrow>
          if grp m 1 \<noteq> [] then
            (let extracted = trim (grp m 1)
             in if length extracted > 2 \<and> length extracted < 50 \<and> extracted \<notin> set stoplist
                then Some (titleCase extracted)
                else destination_loop rs prompt)
          else destination_loop rs prompt
      | None \<Rightarrow> destination_loop rs prompt)"

definition extractDestination :: "string \<Rightarrow> string" where
  "extractDestination prompt =
     (case find (str_includes prompt) destinations of
        Some dest \<Rightarrow> titleCase dest
      | None \<Rightarrow>
          (case destination_loop destination_patterns prompt of
             Some d \<Rightarrow> d
           | None \<Rightarrow> ''California''))"

subsection \<open>extractDuration\<close>

text \<open>
  The loop over \<^verbatim>\<open>durationPatterns\<close>. It returns from inside the loop on a match, leaving
  the \<open>lastIndex\<close> that \<^verbatim>\<open>exec\<close> has set; the reset at the end of the body is reached only
  when the pattern does not match (or carries none of the three properties).
\<close>

fun duration_loop :: "dpattern list \<Rightarrow> string \<Rightarrow> number option \<times> dpattern list" where
  "duration_loop [] prompt = (None, [])"
| "duration_loop (p # ps) prompt =
     (case exec (d_pattern p) prompt of
        (Some m, re) \<Rightarrow>
          (case d_value p of
             Some v \<Rightarrow> (Some (Num v), p\<lparr>d_pattern := re\<rparr> # ps)
           | None \<Rightarrow>
               if d_range p then
                 (Some (ceil_avg (parseInt (grp m 1)) (parseInt (grp m 2))),
                  p\<lparr>d_pattern := re\<rparr> # ps)
               else
                 (case d_multiplier p of
                    Some k \<Rightarrow> (Some (times (parseInt (grp m 1)) k), p\<lparr>d_pattern := re\<rparr> # ps)
                  | None \<Rightarrow>
                      (case duration_loop ps prompt of
                         (res, ps') \<Rightarrow> (res, p\<lparr>d_pattern := re\<lparr>lastIndex := 0\<rparr>\<rparr> # ps'))))
      | (None, re) \<Rightarrow>
          (case duration_loop ps prompt of
             (res, ps') \<Rightarrow> (res, p\<lparr>d_pattern := re\<lparr>lastIndex := 0\<rparr>\<rparr> # ps')))"

definition extractDuration :: "dpattern list \<Rightarrow> string \<Rightarrow> number \<times> dpattern list" where
  "extractDuration ps prompt =
     (case duration_loop ps prompt of
        (Some d, ps') \<Rightarrow> (d, ps')
      | (None, ps') \<Rightarrow>
          (if str_includes prompt ''quick'' \<or> str_includes prompt ''short'' then Num 2
           else if str_includes prompt ''extended'' \<or> str_includes prompt ''long'' then Num 10
           else if str_includes prompt ''weekend'' then Num 2
           else if str_includes prompt ''week'' then Num 7
           else Num 5,
           ps'))"

subsection \<open>extractInterests\<close>

text \<open>A JavaScript \<^verbatim>\<open>Set\<close> of strings, in insertion order.\<close>

definition set_add :: "string list \<Rightarrow> string \<Rightarrow> string list" where
  "set_add s x = (if x \<in> set s then s else s @ [x])"

definition new_Set :: "string list \<Rightarrow> string list" where
  "new_Set xs = foldl set_add [] xs"

text \<open>\<^verbatim>\<open>foundInterests\<close> before the defaults and the removal of duplicates.\<close>

definition foundInterests :: "string \<Rightarrow> string list" where
  "foundInterests prompt =
     filter (str_includes prompt) interests_vocabulary
     @ (if str_includes prompt ''electric'' \<or> str_includes prompt ''ev''
        then [''eco-friendly'', ''sustainable travel''] else [])
     @ (if str_includes prompt ''family'' \<or> str_includes prompt ''kids''
        then [''family-friendly''] else [])
     @ (if str_includes prompt ''romantic'' \<or> str_includes prompt ''couple''
        then [''romantic'', ''intimate''] else [])
     @ (if str_includes prompt ''solo'' \<or> str_includes prompt ''alone''
        then [''solo travel'', ''self-discovery''] else [])"

definition extractInterests :: "string \<Rightarrow> string list" where
  "extractInterests prompt =
     (if length (foundInterests prompt) = 0 then [''scenic drives'', ''nature'', ''photography'']
      else take 5 (new_Set (foundInterests prompt)))"

subsection \<open>extractAccommodationType and extractPace\<close>

definition extractAccommodationType :: "string \<Rightarrow> accommodation option" where
  "extractAccommodationType prompt =
     (if str_includes prompt ''camp'' \<or> str_includes prompt ''tent'' \<or> str_includes prompt ''rv''
         \<or> str_includes prompt ''outdoors'' \<or> str_includes prompt ''wilderness''
      then Some camping
      else if str_includes prompt ''hotel'' \<or> str_includes prompt ''resort''
         \<or> str_includes prompt ''luxury'' \<or> str_includes prompt ''comfort''
         \<or> str_includes prompt ''spa''
      then Some hotel
      else None)"

definition extractPace :: "string \<Rightarrow> pace option" where
  "extractPace prompt =
     (if str_includes prompt ''relax'' \<or> str_includes prompt ''slow''
         \<or> str_includes prompt ''leisure'' \<or> str_includes prompt ''peaceful''
         \<or> str_includes prompt ''calm''
      then Some relaxed
      else if str_includes prompt ''fast'' \<or> str_includes prompt ''quick''
         \<or> str_includes prompt ''efficient'' \<or> str_includes prompt ''packed''
         \<or> str_includes prompt ''busy''
      then Some fast
      else if str_includes prompt ''moderate'' \<or> str_includes prompt ''balanced''
      then Some moderate
      else None)"

subsection \<open>mapInterestsToUITags\<close>

text \<open>
  \<^verbatim>\<open>uiTagMap[tag]?.includes(x)\<close>: the table is read at its own keys (a tag is a key of the
  table or a title-cased term of the vocabulary, never a member of \<^verbatim>\<open>Object.prototype\<close>).
\<close>

definition synonyms_include :: "string \<Rightarrow> string \<Rightarrow> bool" where
  "synonyms_include tag x = (case map_of uiTagMap tag of Some syns \<Rightarrow> x \<in> set syns | None \<Rightarrow> False)"

text \<open>The first loop: a UI tag is added when some interest matches it.\<close>

definition tag_matches :: "string \<times> string list \<Rightarrow> string \<Rightarrow> bool" where
  "tag_matches entry interest =
     (toLowerCase interest \<in> set (snd entry)
      \<or> str_includes (toLowerCase interest) (toLowerCase (fst entry))
      \<or> str_includes (toLowerCase (fst entry)) (toLowerCase interest))"

definition direct_tags :: "string list \<Rightarrow> string list" where
  "direct_tags raw_interests =
     foldl (\<lambda>mappedTags entry.
              if list_ex (tag_matches entry) raw_interests then set_add mappedTags (fst entry)
              else mappedTags)
       [] uiTagMap"

text \<open>The second loop: an interest that no tag of the set covers is added, title-cased.\<close>

definition add_custom :: "string list \<Rightarrow> string \<Rightarrow> string list" where
  "add_custom mappedTags interest =
     (let isAlreadyMapped = list_ex (\<lambda>tag. synonyms_include tag (toLowerCase interest)) mappedTags
      in if \<not> isAlreadyMapped \<and> interest \<notin> set mappedTags
         then set_add mappedTags (titleCase interest)
         else mappedTags)"

definition mapInterestsToUITags :: "string list \<Rightarrow> string list" where
  "mapInterestsToUITags raw_interests =
     take 6 (foldl add_custom (direct_tags raw_interests) raw_interests)"

subsection \<open>calculateConfidence\<close>

text \<open>
  \<^verbatim>\<open>/(?:to|visit|explore|see|trip to|travel to|drive to|go to)\s+[a-zA-Z\s,]+/\<close>, without
  flags: \<^verbatim>\<open>test\<close> searches from the start and keeps no state.
\<close>

definition to_phrase :: rx where
  "to_phrase = Seq [Alt to_words, Plus Space, Plus AlphaSpaceComma]"

definition test_to_phrase :: "string \<Rightarrow> bool" where
  "test_to_phrase s = (search False to_phrase s \<noteq> None)"

text \<open>
  The loop over \<^verbatim>\<open>durationPatterns\<close>: \<^verbatim>\<open>test\<close> starts at the \<open>lastIndex\<close> that the
  pattern holds, and the \<^verbatim>\<open>break\<close> leaves the one it sets.
\<close>

fun confidence_loop :: "dpattern list \<Rightarrow> string \<Rightarrow> bool \<times> dpattern list" where
  "confidence_loop [] lowerPrompt = (False, [])"
| "confidence_loop (p # ps) lowerPrompt =
     (case test (d_pattern p) lowerPrompt of
        (True, re) \<Rightarrow> (True, p\<lparr>d_pattern := re\<rparr> # ps)
      | (False, re) \<Rightarrow>
          (case confidence_loop ps lowerPrompt of
             (found, ps') \<Rightarrow> (found, p\<lparr>d_pattern := re\<lparr>lastIndex := 0\<rparr>\<rparr> # ps')))"

text \<open>The argument \<open>extracted\<close> of the program is passed field by field.\<close>

definition calculateConfidence ::
  "dpattern list \<Rightarrow> string \<Rightarrow> string \<Rightarrow> string list \<Rightarrow> accommodation option \<Rightarrow> pace option
     \<Rightarrow> ParsingConfidence \<times> dpattern list" where
  "calculateConfidence ps prompt e_destination e_interests e_accommodationType e_pace =
     (let lowerPrompt = toLowerCase prompt;
          destinationConfidence =
            (if list_ex (str_includes lowerPrompt) destinations then 0.9
             else if test_to_phrase lowerPrompt then 0.7
             else if e_destination \<noteq> ''California'' then 0.6
             else 0.3);
          (found, ps') = confidence_loop ps lowerPrompt;
          durationConfidence = (if found then 0.9 else 0.4);
          interestsConfidence = min 0.9 (0.3 + real (length e_interests) * 0.15);
          accommodationConfidence = (if e_accommodationType \<noteq> None then 0.8 else 0.2);
          paceConfidence = (if e_pace \<noteq> None then 0.7 else 0.3)
      in (\<lparr>overall = (destinationConfidence + durationConfidence + interestsConfidence
                       + accommodationConfidence + paceConfidence) / 5,
           c_destination = destinationConfidence,
           c_duration = durationConfidence,
           c_interests = interestsConfidence,
           c_accommodationType = accommodationConfidence,
           c_pace = paceConfidence\<rparr>,
          ps'))"

subsection \<open>parsePrompt\<close>

text \<open>
  The call takes the table \<^verbatim>\<open>durationPatterns\<close> as it stands and returns it as the call
  leaves it, next to the record.
\<close>

definition parsePrompt :: "dpattern list \<Rightarrow> string \<Rightarrow> ParsedPreferences \<times> dpattern list" where
  "parsePrompt ps prompt =
     (let lowerPrompt = toLowerCase prompt;
          e_destination = extractDestination lowerPrompt;
          (e_duration, ps1) = extractDuration ps lowerPrompt;
          e_interests = extractInterests lowerPrompt;
          e_accommodationType = extractAccommodationType lowerPrompt;
          e_pace = extractPace lowerPrompt;
          (conf, ps2) = calculateConfidence ps1 prompt e_destination e_interests
                          e_accommodationType e_pace
      in (\<lparr>destination = e_destination,
           duration = e_duration,
           interests = mapInterestsToUITags e_interests,
           accommodationType = e_accommodationType,
           pace = e_pace,
           confidence = conf\<rparr>,
          ps2))"

text \<open>Two calls in a row, as the wizard makes them on the one class.\<close>

definition parse_twice :: "dpattern list \<Rightarrow> string \<Rightarrow> ParsedPreferences \<times> ParsedPreferences" where
  "parse_twice ps prompt =
     (case parsePrompt ps prompt of
        (first, ps') \<Rightarrow> (first, fst (parsePrompt ps' prompt)))"

subsection \<open>generateClarificationQuestions\<close>

definition threshold :: real where
  "threshold = 0.6"

definition destination_question :: ClarificationQuestion where
  "destination_question =
     \<lparr>q_field = F_destination,
      question = ''Where would you like to go? I wasn't sure about the destination.'',
      suggestions = [''California'', ''Pacific Northwest'', ''New England'', ''Southwest USA'',
                     ''Florida''],
      q_priority = high\<rparr>"

definition duration_question :: ClarificationQuestion where
  "duration_question =
     \<lparr>q_field = F_duration,
      question = ''How many days do you have for this trip?'',
      suggestions = [''2-3 days (weekend)'', ''4-6 days (long trip)'',
                     ''7+ days (extended journey)''],
      q_priority = high\<rparr>"

definition interests_question :: ClarificationQuestion where
  "interests_question =
     \<lparr>q_field = F_interests,
      question = ''What activities or attractions interest you most?'',
      suggestions = [''Nature & Wildlife'', ''Food & Dining'', ''Art & Culture'',
                     ''Adventure Sports'', ''Photography''],
      q_priority = medium\<rparr>"

definition accommodation_question :: ClarificationQuestion where
  "accommodation_question =
     \<lparr>q_field = F_accommodationType,
      question = ''Do you prefer hotels or camping?'',
      suggestions = [''Hotels (comfort & amenities)'', ''Camping (nature & adventure)''],
      q_priority = medium\<rparr>"

definition pace_question :: ClarificationQuestion where
  "pace_question =
     \<lparr>q_field = F_pace,
      question = ''What's your preferred travel pace?'',
      suggestions = [''Relaxed (slow & peaceful)'', ''Moderate (balanced)'',
                     ''Fast (action-packed)''],
      q_priority = low\<rparr>"

fun priorityOrder :: "priority \<Rightarrow> nat" where
  "priorityOrder high = 0"
| "priorityOrder medium = 1"
| "priorityOrder low = 2"

text \<open>
  The questions are pushed in the order of the five checks and then sorted with the
  comparator \<^verbatim>\<open>priorityOrder[a.priority] - priorityOrder[b.priority]\<close>;
  \<^verbatim>\<open>Array.prototype.sort\<close> is stable, as is \<open>sort_key\<close>.
\<close>

text \<open>The array \<^verbatim>\<open>questions\<close> after the five checks, before the sort.\<close>

definition pushed_questions :: "ParsedPreferences \<Rightarrow> ClarificationQuestion list" where
  "pushed_questions parsed =
       (if c_destination (confidence parsed) < threshold then [destination_question] else [])
     @ (if c_duration (confidence parsed) < threshold then [duration_question] else [])
     @ (if c_interests (confidence parsed) < threshold then [interests_question] else [])
     @ (if c_accommodationType (confidence parsed) < threshold
        then [accommodation_question] else [])
     @ (if c_pace (confidence parsed) < threshold then [pace_question] else [])"

definition generateClarificationQuestions :: "ParsedPreferences \<Rightarrow> ClarificationQuestion list" where
  "generateClarificationQuestions parsed =
     sort_key (\<lambda>q. priorityOrder (q_priority q)) (pushed_questions parsed)"

subsection \<open>handleClarificationAnswer\<close>

definition durationMap :: "(string \<times> int) list" where
  "durationMap =
    [(''2-3 days (weekend)'', 3), (''4-6 days (long trip)'', 5),
     (''7+ days (extended journey)'', 7)]"

definition typeMap :: "(string \<times> accommodation) list" where
  "typeMap =
    [(''Hotels (comfort & amenities)'', hotel), (''Camping (nature & adventure)'', camping)]"

definition paceMap :: "(string \<times> pace) list" where
  "paceMap =
    [(''Relaxed (slow & peaceful)'', relaxed), (''Moderate (balanced)'', moderate),
     (''Fast (action-packed)'', fast)]"

text \<open>
  The three tables are object literals, so \<^verbatim>\<open>table[answer]\<close> also finds what every object
  inherits from \<^verbatim>\<open>Object.prototype\<close>: its methods and, under \<^verbatim>\<open>__proto__\<close>, the prototype
  itself, under the names that ECMAScript and its Annex B give them. All of these are
  truthy and none is a number or a string.
\<close>

definition object_prototype_keys :: "string list" where
  "object_prototype_keys =
    [''constructor'', ''__defineGetter__'', ''__defineSetter__'', ''hasOwnProperty'',
     ''__lookupGetter__'', ''__lookupSetter__'', ''isPrototypeOf'', ''propertyIsEnumerable'',
     ''toString'', ''valueOf'', ''__proto__'', ''toLocaleString'']"

datatype 'a property = Own 'a | Inherited | Absent

definition get_property :: "(string \<times> 'a) list \<Rightarrow> string \<Rightarrow> 'a property" where
  "get_property obj key =
     (case map_of obj key of
        Some v \<Rightarrow> Own v
      | None \<Rightarrow> if key \<in> set object_prototype_keys then Inherited else Absent)"

text \<open>\<^verbatim>\<open>a || b\<close> on numbers.\<close>

definition or_else :: "number \<Rightarrow> number \<Rightarrow> number" where
  "or_else a b = (if truthy a then a else b)"

text \<open>
  Where the handler stores an inherited member in a field, the record is no
  \<^verbatim>\<open>ParsedPreferences\<close> any more; the model stops there and names the field.
\<close>

datatype ill_typed = Function_in field

text \<open>
  \<^verbatim>\<open>durationMap[answer] || parseInt(answer) || updatedParsed.duration || preferences.duration\<close>
\<close>

definition answered_duration :: "string \<Rightarrow> number \<Rightarrow> number \<Rightarrow> ill_typed + number" where
  "answered_duration answer current pref_duration =
     (case get_property durationMap answer of
        Inherited \<Rightarrow> Inl (Function_in F_duration)
      | Own d \<Rightarrow>
          Inr (or_else (or_else (or_else (Num d) (parseInt answer)) current) pref_duration)
      | Absent \<Rightarrow> Inr (or_else (or_else (parseInt answer) current) pref_duration))"

text \<open>\<^verbatim>\<open>typeMap[answer] || (answer === 'camping' ? 'camping' : 'hotel')\<close>\<close>

definition answered_accommodation :: "string \<Rightarrow> ill_typed + accommodation" where
  "answered_accommodation answer =
     (case get_property typeMap answer of
        Inherited \<Rightarrow> Inl (Function_in F_accommodationType)
      | Own t \<Rightarrow> Inr t
      | Absent \<Rightarrow> Inr (if answer = ''camping'' then camping else hotel))"

text \<open>\<^verbatim>\<open>paceMap[answer] || updatedParsed.pace\<close>\<close>

definition answered_pace :: "string \<Rightarrow> pace option \<Rightarrow> ill_typed + pace option" where
  "answered_pace answer current =
     (case get_property paceMap answer of
        Inherited \<Rightarrow> Inl (Function_in F_pace)
      | Own p \<Rightarrow> Inr (Some p)
      | Absent \<Rightarrow> Inr current)"

text \<open>The last step of the handler: \<open>overall\<close> is recomputed from the five confidences.\<close>

definition commit :: "ParsedPreferences \<Rightarrow> ParsingConfidence \<Rightarrow> ParsedPreferences" where
  "commit updatedParsed updatedConf =
     updatedParsed\<lparr>confidence :=
       updatedConf\<lparr>overall :=
         (c_destination updatedConf + c_duration updatedConf + c_interests updatedConf
          + c_accommodationType updatedConf + c_pace updatedConf) / 5\<rparr>\<rparr>"

text \<open>
  The record that the handler commits with \<^verbatim>\<open>setParsedData\<close>. \<open>currentParsed\<close> is the
  record of the first line of the handler (the stored \<^verbatim>\<open>parsedData\<close> or, when there is none,
  a fresh parse of the prompt); \<open>pref_duration\<close> is \<^verbatim>\<open>preferences.duration\<close> of the form.
\<close>

definition handleClarificationAnswer ::
  "ParsedPreferences \<Rightarrow> number \<Rightarrow> field \<Rightarrow> string \<Rightarrow> ill_typed + ParsedPreferences" where
  "handleClarificationAnswer currentParsed pref_duration fld answer =
     (let conf = confidence currentParsed
      in case fld of
           F_destination \<Rightarrow>
             Inr (commit (currentParsed\<lparr>destination := answer\<rparr>) (conf\<lparr>c_destination := 0.95\<rparr>))
         | F_duration \<Rightarrow>
             (case answered_duration answer (duration currentParsed) pref_duration of
                Inl e \<Rightarrow> Inl e
              | Inr numeric \<Rightarrow>
                  Inr (commit (currentParsed\<lparr>duration := numeric\<rparr>) (conf\<lparr>c_duration := 0.95\<rparr>)))
         | F_interests \<Rightarrow>
             Inr (commit
                    (if answer \<notin> set (interests currentParsed)
                     then currentParsed\<lparr>interests := interests currentParsed @ [answer]\<rparr>
                     else currentParsed)
                    (conf\<lparr>c_interests := min 0.95 (c_interests conf + 0.25)\<rparr>))
         | F_accommodationType \<Rightarrow>
             (case answered_accommodation answer of
                Inl e \<Rightarrow> Inl e
              | Inr t \<Rightarrow>
                  Inr (commit (currentParsed\<lparr>accommodationType := Some t\<rparr>)
                         (conf\<lparr>c_accommodationType := 0.95\<rparr>)))
         | F_pace \<Rightarrow>
             (case answered_pace answer (pace currentParsed) of
                Inl e \<Rightarrow> Inl e
              | Inr p \<Rightarrow> Inr (commit (currentParsed\<lparr>pace := p\<rparr>) (conf\<lparr>c_pace := 0.95\<rparr>)))
         | F_confidence \<Rightarrow> Inr (commit currentParsed conf))"

text \<open>The handler called again, on the record that the call before has committed.\<close>

definition answer_again ::
  "ill_typed + ParsedPreferences \<Rightarrow> number \<Rightarrow> field \<Rightarrow> string \<Rightarrow> ill_typed + ParsedPreferences"
  where
  "answer_again committed pref_duration fld answer =
     (case committed of
        Inl e \<Rightarrow> Inl e
      | Inr parsed \<Rightarrow> handleClarificationAnswer parsed pref_duration fld answer)"

subsection \<open>Notions used in the statements\<close>

text \<open>
  The text holds one of the words of the first destination pattern, then a white space
  character, then a letter, a white space character or a comma.
\<close>

definition has_to_phrase :: "string \<Rightarrow> bool" where
  "has_to_phrase s =
     (\<exists>pre w x c post. s = pre @ w @ x # c # post \<and> w \<in> set to_word_strings
        \<and> is_space x \<and> in_cls AlphaSpaceComma c)"

text \<open>The record that the parser returns for the prompt \<open>hiking trip\<close>.\<close>

definition hiking_parsed :: ParsedPreferences where
  "hiking_parsed =
     \<lparr>destination = ''California'', duration = Num 5, interests = [''Mountains''],
      accommodationType = None, pace = None,
      confidence = \<lparr>overall = 0.33, c_destination = 0.3, c_duration = 0.4,
                    c_interests = 0.45, c_accommodationType = 0.2, c_pace = 0.3\<rparr>\<rparr>"

text \<open>That record after the answer \<open>Food & Dining\<close> to the question for the interests.\<close>

definition hiking_answered :: ParsedPreferences where
  "hiking_answered =
     \<lparr>destination = ''California'', duration = Num 5,
      interests = [''Mountains'', ''Food & Dining''],
      accommodationType = None, pace = None,
      confidence = \<lparr>overall = 0.38, c_destination = 0.3, c_duration = 0.4,
                    c_interests = 0.7, c_accommodationType = 0.2, c_pace = 0.3\<rparr>\<rparr>"

section \<open>Properties\<close>

subsection \<open>The characters, for evaluation\<close>

text \<open>
  The two functions that every step of the matcher calls, tabulated on all characters,
  so that a concrete input evaluates without a search through the alphabet.
\<close>

lemma lower_char_table [code]:
  "lower_char (CHR 0x00) = CHR 0x00" "lower_char (CHR 0x01) = CHR 0x01"
  "lower_char (CHR 0x02) = CHR 0x02" "lower_char (CHR 0x03) = CHR 0x03"
  "lower_char (CHR 0x04) = CHR 0x04" "lower_char (CHR 0x05) = CHR 0x05"
  "lower_char (CHR 0x06) = CHR 0x06" "lower_char (CHR 0x07) = CHR 0x07"
  "lower_char (CHR 0x08) = CHR 0x08" "lower_char (CHR 0x09) = CHR 0x09"
  "lower_char (CHR 0x0A) = CHR 0x0A" "lower_char (CHR 0x0B) = CHR 0x0B"
  "lower_char (CHR 0x0C) = CHR 0x0C" "lower_char (CHR 0x0D) = CHR 0x0D"
  "lower_char (CHR 0x0E) = CHR 0x0E" "lower_char (CHR 0x0F) = CHR 0x0F"
  "lower_char (CHR 0x10) = CHR 0x10" "lower_char (CHR 0x11) = CHR 0x11"
  "lower_char (CHR 0x12) = CHR 0x12" "lower_char (CHR 0x13) = CHR 0x13"
  "lower_char (CHR 0x14) = CHR 0x14" "lower_char (CHR 0x15) = CHR 0x15"
  "lower_char (CHR 0x16) = CHR 0x16" "lower_char (CHR 0x17) = CHR 0x17"
  "lower_char (CHR 0x18) = CHR 0x18" "lower_char (CHR 0x19) = CHR 0x19"
  "lower_char (CHR 0x1A) = CHR 0x1A" "lower_char (CHR 0x1B) = CHR 0x1B"
  "lower_char (CHR 0x1C) = CHR 0x1C" "lower_char (CHR 0x1D) = CHR 0x1D"
  "lower_char (CHR 0x1E) = CHR 0x1E" "lower_char (CHR 0x1F) = CHR 0x1F"
  "lower_char (CHR '' '') = CHR '' ''" "lower_char (CHR 0x21) = CHR 0x21"
  "lower_char (CHR 0x22) = CHR 0x22" "lower_char (CHR 0x23) = CHR 0x23"
  "lower_char (CHR 0x24) = CHR 0x24" "lower_char (CHR 0x25) = CHR 0x25"
  "lower_char (CHR 0x26) = CHR 0x26" "lower_char (CHR 0x27) = CHR 0x27"
  "lower_char (CHR 0x28) = CHR 0x28" "lower_char (CHR 0x29) = CHR 0x29"
  "lower_char (CHR 0x2A) = CHR 0x2A" "lower_char (CHR 0x2B) = CHR 0x2B"
  "lower_char (CHR 0x2C) = CHR 0x2C" "lower_char (CHR 0x2D) = CHR 0x2D"
  "lower_char (CHR 0x2E) = CHR 0x2E" "lower_char (CHR 0x2F) = CHR 0x2F"
  "lower_char (CHR ''0'') = CHR ''0''" "lower_char (CHR ''1'') = CHR ''1''"
  "lower_char (CHR ''2'') = CHR ''2''" "lower_char (CHR ''3'') = CHR ''3''"
  "lower_char (CHR ''4'') = CHR ''4''" "lower_char (CHR ''5'') = CHR ''5''"
  "lower_char (CHR ''6'') = CHR ''6''" "lower_char (CHR ''7'') = CHR ''7''"
  "lower_char (CHR ''8'') = CHR ''8''" "lower_char (CHR ''9'') = CHR ''9''"
  "lower_char (CHR 0x3A) = CHR 0x3A" "lower_char (CHR 0x3B) = CHR 0x3B"
  "lower_char (CHR 0x3C) = CHR 0x3C" "lower_char (CHR 0x3D) = CHR 0x3D"
  "lower_char (CHR 0x3E) = CHR 0x3E" "lower_char (CHR 0x3F) = CHR 0x3F"
  "lower_char (CHR 0x40) = CHR 0x40" "lower_char (CHR ''A'') = CHR ''a''"
  "lower_char (CHR ''B'') = CHR ''b''" "lower_char (CHR ''C'') = CHR ''c''"
  "lower_char (CHR ''D'') = CHR ''d''" "lower_char (CHR ''E'') = CHR ''e''"
  "lower_char (CHR ''F'') = CHR ''f''" "lower_char (CHR ''G'') = CHR ''g''"
  "lower_char (CHR ''H'') = CHR ''h''" "lower_char (CHR ''I'') = CHR ''i''"
  "lower_char (CHR ''J'') = CHR ''j''" "lower_char (CHR ''K'') = CHR ''k''"
  "lower_char (CHR ''L'') = CHR ''l''" "lower_char (CHR ''M'') = CHR ''m''"
  "lower_char (CHR ''N'') = CHR ''n''" "lower_char (CHR ''O'') = CHR ''o''"
  "lower_char (CHR ''P'') = CHR ''p''" "lower_char (CHR ''Q'') = CHR ''q''"
  "lower_char (CHR ''R'') = CHR ''r''" "lower_char (CHR ''S'') = CHR ''s''"
  "lower_char (CHR ''T'') = CHR ''t''" "lower_char (CHR ''U'') = CHR ''u''"
  "lower_char (CHR ''V'') = CHR ''v''" "lower_char (CHR ''W'') = CHR ''w''"
  "lower_char (CHR ''X'') = CHR ''x''" "lower_char (CHR ''Y'') = CHR ''y''"
  "lower_char (CHR ''Z'') = CHR ''z''" "lower_char (CHR 0x5B) = CHR 0x5B"
  "lower_char (CHR 0x5C) = CHR 0x5C" "lower_char (CHR 0x5D) = CHR 0x5D"
  "lower_char (CHR 0x5E) = CHR 0x5E" "lower_char (CHR 0x5F) = CHR 0x5F"
  "lower_char (CHR 0x60) = CHR 0x60" "lower_char (CHR ''a'') = CHR ''a''"
  "lower_char (CHR ''b'') = CHR ''b''" "lower_char (CHR ''c'') = CHR ''c''"
  "lower_char (CHR ''d'') = CHR ''d''" "lower_char (CHR ''e'') = CHR ''e''"
  "lower_char (CHR ''f'') = CHR ''f''" "lower_char (CHR ''g'') = CHR ''g''"
  "lower_char (CHR ''h'') = CHR ''h''" "lower_char (CHR ''i'') = CHR ''i''"
  "lower_char (CHR ''j'') = CHR ''j''" "lower_char (CHR ''k'') = CHR ''k''"
  "lower_char (CHR ''l'') = CHR ''l''" "lower_char (CHR ''m'') = CHR ''m''"
  "lower_char (CHR ''n'') = CHR ''n''" "lower_char (CHR ''o'') = CHR ''o''"
  "lower_char (CHR ''p'') = CHR ''p''" "lower_char (CHR ''q'') = CHR ''q''"
  "lower_char (CHR ''r'') = CHR ''r''" "lower_char (CHR ''s'') = CHR ''s''"
  "lower_char (CHR ''t'') = CHR ''t''" "lower_char (CHR ''u'') = CHR ''u''"
  "lower_char (CHR ''v'') = CHR ''v''" "lower_char (CHR ''w'') = CHR ''w''"
  "lower_char (CHR ''x'') = CHR ''x''" "lower_char (CHR ''y'') = CHR ''y''"
  "lower_char (CHR ''z'') = CHR ''z''" "lower_char (CHR 0x7B) = CHR 0x7B"
  "lower_char (CHR 0x7C) = CHR 0x7C" "lower_char (CHR 0x7D) = CHR 0x7D"
  "lower_char (CHR 0x7E) = CHR 0x7E" "lower_char (CHR 0x7F) = CHR 0x7F"
  "lower_char (CHR 0x80) = CHR 0x80" "lower_char (CHR 0x81) = CHR 0x81"
  "lower_char (CHR 0x82) = CHR 0x82" "lower_char (CHR 0x83) = CHR 0x83"
  "lower_char (CHR 0x84) = CHR 0x84" "lower_char (CHR 0x85) = CHR 0x85"
  "lower_char (CHR 0x86) = CHR 0x86" "lower_char (CHR 0x87) = CHR 0x87"
  "lower_char (CHR 0x88) = CHR 0x88" "lower_char (CHR 0x89) = CHR 0x89"
  "lower_char (CHR 0x8A) = CHR 0x8A" "lower_char (CHR 0x8B) = CHR 0x8B"
  "lower_char (CHR 0x8C) = CHR 0x8C" "lower_char (CHR 0x8D) = CHR 0x8D"
  "lower_char (CHR 0x8E) = CHR 0x8E" "lower_char (CHR 0x8F) = CHR 0x8F"
  "lower_char (CHR 0x90) = CHR 0x90" "lower_char (CHR 0x91) = CHR 0x91"
  "lower_char (CHR 0x92) = CHR 0x92" "lower_char (CHR 0x93) = CHR 0x93"
  "lower_char (CHR 0x94) = CHR 0x94" "lower_char (CHR 0x95) = CHR 0x95"
  "lower_char (CHR 0x96) = CHR 0x96" "lower_char (CHR 0x97) = CHR 0x97"
  "lower_char (CHR 0x98) = CHR 0x98" "lower_char (CHR 0x99) = CHR 0x99"
  "lower_char (CHR 0x9A) = CHR 0x9A" "lower_char (CHR 0x9B) = CHR 0x9B"
  "lower_char (CHR 0x9C) = CHR 0x9C" "lower_char (CHR 0x9D) = CHR 0x9D"
  "lower_char (CHR 0x9E) = CHR 0x9E" "lower_char (CHR 0x9F) = CHR 0x9F"
  "lower_char (CHR 0xA0) = CHR 0xA0" "lower_char (CHR 0xA1) = CHR 0xA1"
  "lower_char (CHR 0xA2) = CHR 0xA2" "lower_char (CHR 0xA3) = CHR 0xA3"
  "lower_char (CHR 0xA4) = CHR 0xA4" "lower_char (CHR 0xA5) = CHR 0xA5"
  "lower_char (CHR 0xA6) = CHR 0xA6" "lower_char (CHR 0xA7) = CHR 0xA7"
  "lower_char (CHR 0xA8) = CHR 0xA8" "lower_char (CHR 0xA9) = CHR 0xA9"
  "lower_char (CHR 0xAA) = CHR 0xAA" "lower_char (CHR 0xAB) = CHR 0xAB"
  "lower_char (CHR 0xAC) = CHR 0xAC" "lower_char (CHR 0xAD) = CHR 0xAD"
  "lower_char (CHR 0xAE) = CHR 0xAE" "lower_char (CHR 0xAF) = CHR 0xAF"
  "lower_char (CHR 0xB0) = CHR 0xB0" "lower_char (CHR 0xB1) = CHR 0xB1"
  "lower_char (CHR 0xB2) = CHR 0xB2" "lower_char (CHR 0xB3) = CHR 0xB3"
  "lower_char (CHR 0xB4) = CHR 0xB4" "lower_char (CHR 0xB5) = CHR 0xB5"
  "lower_char (CHR 0xB6) = CHR 0xB6" "lower_char (CHR 0xB7) = CHR 0xB7"
  "lower_char (CHR 0xB8) = CHR 0xB8" "lower_char (CHR 0xB9) = CHR 0xB9"
  "lower_char (CHR 0xBA) = CHR 0xBA" "lower_char (CHR 0xBB) = CHR 0xBB"
  "lower_char (CHR 0xBC) = CHR 0xBC" "lower_char (CHR 0xBD) = CHR 0xBD"
  "lower_char (CHR 0xBE) = CHR 0xBE" "lower_char (CHR 0xBF) = CHR 0xBF"
  "lower_char (CHR 0xC0) = CHR 0xE0" "lower_char (CHR 0xC1) = CHR 0xE1"
  "lower_char (CHR 0xC2) = CHR 0xE2" "lower_char (CHR 0xC3) = CHR 0xE3"
  "lower_char (CHR 0xC4) = CHR 0xE4" "lower_char (CHR 0xC5) = CHR 0xE5"
  "lower_char (CHR 0xC6) = CHR 0xE6" "lower_char (CHR 0xC7) = CHR 0xE7"
  "lower_char (CHR 0xC8) = CHR 0xE8" "lower_char (CHR 0xC9) = CHR 0xE9"
  "lower_char (CHR 0xCA) = CHR 0xEA" "lower_char (CHR 0xCB) = CHR 0xEB"
  "lower_char (CHR 0xCC) = CHR 0xEC" "lower_char (CHR 0xCD) = CHR 0xED"
  "lower_char (CHR 0xCE) = CHR 0xEE" "lower_char (CHR 0xCF) = CHR 0xEF"
  "lower_char (CHR 0xD0) = CHR 0xF0" "lower_char (CHR 0xD1) = CHR 0xF1"
  "lower_char (CHR 0xD2) = CHR 0xF2" "lower_char (CHR 0xD3) = CHR 0xF3"
  "lower_char (CHR 0xD4) = CHR 0xF4" "lower_char (CHR 0xD5) = CHR 0xF5"
  "lower_char (CHR 0xD6) = CHR 0xF6" "lower_char (CHR 0xD7) = CHR 0xD7"
  "lower_char (CHR 0xD8) = CHR 0xF8" "lower_char (CHR 0xD9) = CHR 0xF9"
  "lower_char (CHR 0xDA) = CHR 0xFA" "lower_char (CHR 0xDB) = CHR 0xFB"
  "lower_char (CHR 0xDC) = CHR 0xFC" "lower_char (CHR 0xDD) = CHR 0xFD"
  "lower_char (CHR 0xDE) = CHR 0xFE" "lower_char (CHR 0xDF) = CHR 0xDF"
  "lower_char (CHR 0xE0) = CHR 0xE0" "lower_char (CHR 0xE1) = CHR 0xE1"
  "lower_char (CHR 0xE2) = CHR 0xE2" "lower_char (CHR 0xE3) = CHR 0xE3"
  "lower_char (CHR 0xE4) = CHR 0xE4" "lower_char (CHR 0xE5) = CHR 0xE5"
  "lower_char (CHR 0xE6) = CHR 0xE6" "lower_char (CHR 0xE7) = CHR 0xE7"
  "lower_char (CHR 0xE8) = CHR 0xE8" "lower_char (CHR 0xE9) = CHR 0xE9"
  "lower_char (CHR 0xEA) = CHR 0xEA" "lower_char (CHR 0xEB) = CHR 0xEB"
  "lower_char (CHR 0xEC) = CHR 0xEC" "lower_char (CHR 0xED) = CHR 0xED"
  "lower_char (CHR 0xEE) = CHR 0xEE" "lower_char (CHR 0xEF) = CHR 0xEF"
  "lower_char (CHR 0xF0) = CHR 0xF0" "lower_char (CHR 0xF1) = CHR 0xF1"
  "lower_char (CHR 0xF2) = CHR 0xF2" "lower_char (CHR 0xF3) = CHR 0xF3"
  "lower_char (CHR 0xF4) = CHR 0xF4" "lower_char (CHR 0xF5) = CHR 0xF5"
  "lower_char (CHR 0xF6) = CHR 0xF6" "lower_char (CHR 0xF7) = CHR 0xF7"
  "lower_char (CHR 0xF8) = CHR 0xF8" "lower_char (CHR 0xF9) = CHR 0xF9"
  "lower_char (CHR 0xFA) = CHR 0xFA" "lower_char (CHR 0xFB) = CHR 0xFB"
  "lower_char (CHR 0xFC) = CHR 0xFC" "lower_char (CHR 0xFD) = CHR 0xFD"
  "lower_char (CHR 0xFE) = CHR 0xFE" "lower_char (CHR 0xFF) = CHR 0xFF"
  by (simp_all add: lower_char_def upper_letters_def lower_letters_def latin1_upper_def
        latin1_lower_def)

lemma is_digit_table [code]:
  "is_digit (CHR 0x00) = False" "is_digit (CHR 0x01) = False"
  "is_digit (CHR 0x02) = False" "is_digit (CHR 0x03) = False"
  "is_digit (CHR 0x04) = False" "is_digit (CHR 0x05) = False"
  "is_digit (CHR 0x06) = False" "is_digit (CHR 0x07) = False"
  "is_digit (CHR 0x08) = False" "is_digit (CHR 0x09) = False"
  "is_digit (CHR 0x0A) = False" "is_digit (CHR 0x0B) = False"
  "is_digit (CHR 0x0C) = False" "is_digit (CHR 0x0D) = False"
  "is_digit (CHR 0x0E) = False" "is_digit (CHR 0x0F) = False"
  "is_digit (CHR 0x10) = False" "is_digit (CHR 0x11) = False"
  "is_digit (CHR 0x12) = False" "is_digit (CHR 0x13) = False"
  "is_digit (CHR 0x14) = False" "is_digit (CHR 0x15) = False"
  "is_digit (CHR 0x16) = False" "is_digit (CHR 0x17) = False"
  "is_digit (CHR 0x18) = False" "is_digit (CHR 0x19) = False"
  "is_digit (CHR 0x1A) = False" "is_digit (CHR 0x1B) = False"
  "is_digit (CHR 0x1C) = False" "is_digit (CHR 0x1D) = False"
  "is_digit (CHR 0x1E) = False" "is_digit (CHR 0x1F) = False"
  "is_digit (CHR '' '') = False" "is_digit (CHR 0x21) = False"
  "is_digit (CHR 0x22) = False" "is_digit (CHR 0x23) = False"
  "is_digit (CHR 0x24) = False" "is_digit (CHR 0x25) = False"
  "is_digit (CHR 0x26) = False" "is_digit (CHR 0x27) = False"
  "is_digit (CHR 0x28) = False" "is_digit (CHR 0x29) = False"
  "is_digit (CHR 0x2A) = False" "is_digit (CHR 0x2B) = False"
  "is_digit (CHR 0x2C) = False" "is_digit (CHR 0x2D) = False"
  "is_digit (CHR 0x2E) = False" "is_digit (CHR 0x2F) = False"
  "is_digit (CHR ''0'') = True" "is_digit (CHR ''1'') = True"
  "is_digit (CHR ''2'') = True" "is_digit (CHR ''3'') = True"
  "is_digit (CHR ''4'') = True" "is_digit (CHR ''5'') = True"
  "is_digit (CHR ''6'') = True" "is_digit (CHR ''7'') = True"
  "is_digit (CHR ''8'') = True" "is_digit (CHR ''9'') = True"
  "is_digit (CHR 0x3A) = False" "is_digit (CHR 0x3B) = False"
  "is_digit (CHR 0x3C) = False" "is_digit (CHR 0x3D) = False"
  "is_digit (CHR 0x3E) = False" "is_digit (CHR 0x3F) = False"
  "is_digit (CHR 0x40) = False" "is_digit (CHR ''A'') = False"
  "is_digit (CHR ''B'') = False" "is_digit (CHR ''C'') = False"
  "is_digit (CHR ''D'') = False" "is_digit (CHR ''E'') = False"
  "is_digit (CHR ''F'') = False" "is_digit (CHR ''G'') = False"
  "is_digit (CHR ''H'') = False" "is_digit (CHR ''I'') = False"
  "is_digit (CHR ''J'') = False" "is_digit (CHR ''K'') = False"
  "is_digit (CHR ''L'') = False" "is_digit (CHR ''M'') = False"
  "is_digit (CHR ''N'') = False" "is_digit (CHR ''O'') = False"
  "is_digit (CHR ''P'') = False" "is_digit (CHR ''Q'') = False"
  "is_digit (CHR ''R'') = False" "is_digit (CHR ''S'') = False"
  "is_digit (CHR ''T'') = False" "is_digit (CHR ''U'') = False"
  "is_digit (CHR ''V'') = False" "is_digit (CHR ''W'') = False"
  "is_digit (CHR ''X'') = False" "is_digit (CHR ''Y'') = False"
  "is_digit (CHR ''Z'') = False" "is_digit (CHR 0x5B) = False"
  "is_digit (CHR 0x5C) = False" "is_digit (CHR 0x5D) = False"
  "is_digit (CHR 0x5E) = False" "is_digit (CHR 0x5F) = False"
  "is_digit (CHR 0x60) = False" "is_digit (CHR ''a'') = False"
  "is_digit (CHR ''b'') = False" "is_digit (CHR ''c'') = False"
  "is_digit (CHR ''d'') = False" "is_digit (CHR ''e'') = False"
  "is_digit (CHR ''f'') = False" "is_digit (CHR ''g'') = False"
  "is_digit (CHR ''h'') = False" "is_digit (CHR ''i'') = False"
  "is_digit (CHR ''j'') = False" "is_digit (CHR ''k'') = False"
  "is_digit (CHR ''l'') = False" "is_digit (CHR ''m'') = False"
  "is_digit (CHR ''n'') = False" "is_digit (CHR ''o'') = False"
  "is_digit (CHR ''p'') = False" "is_digit (CHR ''q'') = False"
  "is_digit (CHR ''r'') = False" "is_digit (CHR ''s'') = False"
  "is_digit (CHR ''t'') = False" "is_digit (CHR ''u'') = False"
  "is_digit (CHR ''v'') = False" "is_digit (CHR ''w'') = False"
  "is_digit (CHR ''x'') = False" "is_digit (CHR ''y'') = False"
  "is_digit (CHR ''z'') = False" "is_digit (CHR 0x7B) = False"
  "is_digit (CHR 0x7C) = False" "is_digit (CHR 0x7D) = False"
  "is_digit (CHR 0x7E) = False" "is_digit (CHR 0x7F) = False"
  "is_digit (CHR 0x80) = False" "is_digit (CHR 0x81) = False"
  "is_digit (CHR 0x82) = False" "is_digit (CHR 0x83) = False"
  "is_digit (CHR 0x84) = False" "is_digit (CHR 0x85) = False"
  "is_digit (CHR 0x86) = False" "is_digit (CHR 0x87) = False"
  "is_digit (CHR 0x88) = False" "is_digit (CHR 0x89) = False"
  "is_digit (CHR 0x8A) = False" "is_digit (CHR 0x8B) = False"
  "is_digit (CHR 0x8C) = False" "is_digit (CHR 0x8D) = False"
  "is_digit (CHR 0x8E) = False" "is_digit (CHR 0x8F) = False"
  "is_digit (CHR 0x90) = False" "is_digit (CHR 0x91) = False"
  "is_digit (CHR 0x92) = False" "is_digit (CHR 0x93) = False"
  "is_digit (CHR 0x94) = False" "is_digit (CHR 0x95) = False"
  "is_digit (CHR 0x96) = False" "is_digit (CHR 0x97) = False"
  "is_digit (CHR 0x98) = False" "is_digit (CHR 0x99) = False"
  "is_digit (CHR 0x9A) = False" "is_digit (CHR 0x9B) = False"
  "is_digit (CHR 0x9C) = False" "is_digit (CHR 0x9D) = False"
  "is_digit (CHR 0x9E) = False" "is_digit (CHR 0x9F) = False"
  "is_digit (CHR 0xA0) = False" "is_digit (CHR 0xA1) = False"
  "is_digit (CHR 0xA2) = False" "is_digit (CHR 0xA3) = False"
  "is_digit (CHR 0xA4) = False" "is_digit (CHR 0xA5) = False"
  "is_digit (CHR 0xA6) = False" "is_digit (CHR 0xA7) = False"
  "is_digit (CHR 0xA8) = False" "is_digit (CHR 0xA9) = False"
  "is_digit (CHR 0xAA) = False" "is_digit (CHR 0xAB) = False"
  "is_digit (CHR 0xAC) = False" "is_digit (CHR 0xAD) = False"
  "is_digit (CHR 0xAE) = False" "is_digit (CHR 0xAF) = False"
  "is_digit (CHR 0xB0) = False" "is_digit (CHR 0xB1) = False"
  "is_digit (CHR 0xB2) = False" "is_digit (CHR 0xB3) = False"
  "is_digit (CHR 0xB4) = False" "is_digit (CHR 0xB5) = False"
  "is_digit (CHR 0xB6) = False" "is_digit (CHR 0xB7) = False"
  "is_digit (CHR 0xB8) = False" "is_digit (CHR 0xB9) = False"
  "is_digit (CHR 0xBA) = False" "is_digit (CHR 0xBB) = False"
  "is_digit (CHR 0xBC) = False" "is_digit (CHR 0xBD) = False"
  "is_digit (CHR 0xBE) = False" "is_digit (CHR 0xBF) = False"
  "is_digit (CHR 0xC0) = False" "is_digit (CHR 0xC1) = False"
  "is_digit (CHR 0xC2) = False" "is_digit (CHR 0xC3) = False"
  "is_digit (CHR 0xC4) = False" "is_digit (CHR 0xC5) = False"
  "is_digit (CHR 0xC6) = False" "is_digit (CHR 0xC7) = False"
  "is_digit (CHR 0xC8) = False" "is_digit (CHR 0xC9) = False"
  "is_digit (CHR 0xCA) = False" "is_digit (CHR 0xCB) = False"
  "is_digit (CHR 0xCC) = False" "is_digit (CHR 0xCD) = False"
  "is_digit (CHR 0xCE) = False" "is_digit (CHR 0xCF) = False"
  "is_digit (CHR 0xD0) = False" "is_digit (CHR 0xD1) = False"
  "is_digit (CHR 0xD2) = False" "is_digit (CHR 0xD3) = False"
  "is_digit (CHR 0xD4) = False" "is_digit (CHR 0xD5) = False"
  "is_digit (CHR 0xD6) = False" "is_digit (CHR 0xD7) = False"
  "is_digit (CHR 0xD8) = False" "is_digit (CHR 0xD9) = False"
  "is_digit (CHR 0xDA) = False" "is_digit (CHR 0xDB) = False"
  "is_digit (CHR 0xDC) = False" "is_digit (CHR 0xDD) = False"
  "is_digit (CHR 0xDE) = False" "is_digit (CHR 0xDF) = False"
  "is_digit (CHR 0xE0) = False" "is_digit (CHR 0xE1) = False"
  "is_digit (CHR 0xE2) = False" "is_digit (CHR 0xE3) = False"
  "is_digit (CHR 0xE4) = False" "is_digit (CHR 0xE5) = False"
  "is_digit (CHR 0xE6) = False" "is_digit (CHR 0xE7) = False"
  "is_digit (CHR 0xE8) = False" "is_digit (CHR 0xE9) = False"
  "is_digit (CHR 0xEA) = False" "is_digit (CHR 0xEB) = False"
  "is_digit (CHR 0xEC) = False" "is_digit (CHR 0xED) = False"
  "is_digit (CHR 0xEE) = False" "is_digit (CHR 0xEF) = False"
  "is_digit (CHR 0xF0) = False" "is_digit (CHR 0xF1) = False"
  "is_digit (CHR 0xF2) = False" "is_digit (CHR 0xF3) = False"
  "is_digit (CHR 0xF4) = False" "is_digit (CHR 0xF5) = False"
  "is_digit (CHR 0xF6) = False" "is_digit (CHR 0xF7) = False"
  "is_digit (CHR 0xF8) = False" "is_digit (CHR 0xF9) = False"
  "is_digit (CHR 0xFA) = False" "is_digit (CHR 0xFB) = False"
  "is_digit (CHR 0xFC) = False" "is_digit (CHR 0xFD) = False"
  "is_digit (CHR 0xFE) = False" "is_digit (CHR 0xFF) = False"
  by (simp_all add: is_digit_def)

subsection \<open>The record that parsePrompt returns\<close>

lemma confidence_parsePrompt:
  "confidence (fst (parsePrompt ps prompt)) =
     fst (calculateConfidence (snd (extractDuration ps (toLowerCase prompt))) prompt
            (extractDestination (toLowerCase prompt)) (extractInterests (toLowerCase prompt))
            (extractAccommodationType (toLowerCase prompt)) (extractPace (toLowerCase prompt)))"
  by (simp add: parsePrompt_def Let_def split: prod.splits)

lemma interests_parsePrompt:
  "interests (fst (parsePrompt ps prompt)) =
     mapInterestsToUITags (extractInterests (toLowerCase prompt))"
  by (simp add: parsePrompt_def Let_def split: prod.splits)

lemma destination_parsePrompt:
  "destination (fst (parsePrompt ps prompt)) = extractDestination (toLowerCase prompt)"
  by (simp add: parsePrompt_def Let_def split: prod.splits)

lemma duration_parsePrompt:
  "duration (fst (parsePrompt ps prompt)) = fst (extractDuration ps (toLowerCase prompt))"
  by (simp add: parsePrompt_def Let_def split: prod.splits)

lemma calculateConfidence_fields:
  "c_destination (fst (calculateConfidence ps prompt d i a p)) =
     (if list_ex (str_includes (toLowerCase prompt)) destinations then 0.9
      else if test_to_phrase (toLowerCase prompt) then 0.7
      else if d \<noteq> ''California'' then 0.6 else 0.3)"
  "c_duration (fst (calculateConfidence ps prompt d i a p)) =
     (if fst (confidence_loop ps (toLowerCase prompt)) then 0.9 else 0.4)"
  "c_interests (fst (calculateConfidence ps prompt d i a p)) =
     min 0.9 (0.3 + real (length i) * 0.15)"
  "c_accommodationType (fst (calculateConfidence ps prompt d i a p)) =
     (if a \<noteq> None then 0.8 else 0.2)"
  "c_pace (fst (calculateConfidence ps prompt d i a p)) = (if p \<noteq> None then 0.7 else 0.3)"
  by (simp_all only: calculateConfidence_def Let_def case_prod_beta fst_conv
        ParsingConfidence.select_convs)

lemma calculateConfidence_overall:
  "overall (fst (calculateConfidence ps prompt d i a p)) =
     (c_destination (fst (calculateConfidence ps prompt d i a p))
      + c_duration (fst (calculateConfidence ps prompt d i a p))
      + c_interests (fst (calculateConfidence ps prompt d i a p))
      + c_accommodationType (fst (calculateConfidence ps prompt d i a p))
      + c_pace (fst (calculateConfidence ps prompt d i a p))) / 5"
  by (simp only: calculateConfidence_def Let_def case_prod_beta fst_conv
        ParsingConfidence.select_convs)

lemma state_calculateConfidence:
  "snd (calculateConfidence ps prompt d i a p) = snd (confidence_loop ps (toLowerCase prompt))"
  by (simp only: calculateConfidence_def Let_def case_prod_beta snd_conv)

lemma state_parsePrompt:
  "snd (parsePrompt ps prompt) =
     snd (confidence_loop (snd (extractDuration ps (toLowerCase prompt))) (toLowerCase prompt))"
  by (simp only: parsePrompt_def Let_def case_prod_beta snd_conv state_calculateConfidence)

lemma parse_twice_durations:
  "duration (fst (parse_twice ps prompt)) = fst (extractDuration ps (toLowerCase prompt))"
  "duration (snd (parse_twice ps prompt)) =
     fst (extractDuration
            (snd (confidence_loop (snd (extractDuration ps (toLowerCase prompt)))
                    (toLowerCase prompt)))
            (toLowerCase prompt))"
  by (simp_all add: parse_twice_def case_prod_beta duration_parsePrompt state_parsePrompt)

subsection \<open>Sets in insertion order\<close>

lemma distinct_set_add: "distinct s \<Longrightarrow> distinct (set_add s x)"
  by (simp add: set_add_def)

lemma set_add_nonempty: "set_add s x \<noteq> []"
  by (auto simp: set_add_def)

lemma foldl_set_add_nonempty: "s \<noteq> [] \<Longrightarrow> foldl set_add s xs \<noteq> []"
  by (induction xs arbitrary: s) (simp_all add: set_add_nonempty)

lemma new_Set_nonempty: "xs \<noteq> [] \<Longrightarrow> new_Set xs \<noteq> []"
  by (cases xs) (simp_all add: new_Set_def foldl_set_add_nonempty set_add_nonempty)

subsection \<open>The tags of mapInterestsToUITags\<close>

lemma distinct_add_custom: "distinct s \<Longrightarrow> distinct (add_custom s x)"
  by (simp add: add_custom_def Let_def distinct_set_add)

lemma distinct_foldl_add_custom: "distinct s \<Longrightarrow> distinct (foldl add_custom s xs)"
  by (induction xs arbitrary: s) (simp_all add: distinct_add_custom)

lemma distinct_foldl_tags:
  "distinct s \<Longrightarrow> distinct (foldl (\<lambda>m e. if P e then set_add m (fst e) else m) s es)"
  by (induction es arbitrary: s) (simp_all add: distinct_set_add)

lemma distinct_direct_tags: "distinct (direct_tags xs)"
  unfolding direct_tags_def by (rule distinct_foldl_tags) simp

lemma add_custom_nonempty: "s \<noteq> [] \<Longrightarrow> add_custom s x \<noteq> []"
  by (simp add: add_custom_def Let_def set_add_nonempty)

lemma add_custom_empty: "add_custom [] x \<noteq> []"
  by (simp add: add_custom_def Let_def set_add_def)

lemma foldl_add_custom_nonempty: "s \<noteq> [] \<Longrightarrow> foldl add_custom s xs \<noteq> []"
  by (induction xs arbitrary: s) (simp_all add: add_custom_nonempty)

lemma mapInterestsToUITags_nonempty:
  assumes "xs \<noteq> []"
  shows "mapInterestsToUITags xs \<noteq> []"
proof -
  from assms obtain x ys where xs: "xs = x # ys"
    by (cases xs) auto
  have "add_custom (direct_tags xs) x \<noteq> []"
    by (cases "direct_tags xs = []") (simp_all add: add_custom_empty add_custom_nonempty)
  then have "foldl add_custom (direct_tags xs) xs \<noteq> []"
    by (simp add: xs foldl_add_custom_nonempty)
  then show ?thesis
    by (simp add: mapInterestsToUITags_def)
qed

lemma extractInterests_nonempty: "extractInterests s \<noteq> []"
  by (simp add: extractInterests_def new_Set_nonempty)

subsection \<open>The questions\<close>

lemma question_fields:
  "q_field destination_question = F_destination"
  "q_field duration_question = F_duration"
  "q_field interests_question = F_interests"
  "q_field accommodation_question = F_accommodationType"
  "q_field pace_question = F_pace"
  by (simp_all add: destination_question_def duration_question_def interests_question_def
        accommodation_question_def pace_question_def)

lemma question_priorities:
  "q_priority destination_question = high"
  "q_priority duration_question = high"
  "q_priority interests_question = medium"
  "q_priority accommodation_question = medium"
  "q_priority pace_question = low"
  by (simp_all add: destination_question_def duration_question_def interests_question_def
        accommodation_question_def pace_question_def)

lemma sort_key_sorted_id: "sorted (map f xs) \<Longrightarrow> sort_key f xs = xs"
  by (induction xs) (auto simp: insort_is_Cons)

lemma pushed_sorted: "sorted (map (\<lambda>q. priorityOrder (q_priority q)) (pushed_questions p))"
  by (simp add: pushed_questions_def question_priorities)

lemma generate_eq_pushed: "generateClarificationQuestions p = pushed_questions p"
  unfolding generateClarificationQuestions_def
  by (rule sort_key_sorted_id) (rule pushed_sorted)

lemma count_questions:
  "length (filter (\<lambda>q. q_field q = F_destination) (pushed_questions p)) =
     (if c_destination (confidence p) < 0.6 then 1 else 0)"
  "length (filter (\<lambda>q. q_field q = F_duration) (pushed_questions p)) =
     (if c_duration (confidence p) < 0.6 then 1 else 0)"
  "length (filter (\<lambda>q. q_field q = F_interests) (pushed_questions p)) =
     (if c_interests (confidence p) < 0.6 then 1 else 0)"
  "length (filter (\<lambda>q. q_field q = F_accommodationType) (pushed_questions p)) =
     (if c_accommodationType (confidence p) < 0.6 then 1 else 0)"
  "length (filter (\<lambda>q. q_field q = F_pace) (pushed_questions p)) =
     (if c_pace (confidence p) < 0.6 then 1 else 0)"
  "length (filter (\<lambda>q. q_field q = F_confidence) (pushed_questions p)) = 0"
  by (simp_all add: pushed_questions_def question_fields threshold_def)

lemma pushed_in_check_order:
  "subseq (map q_field (pushed_questions p))
     [F_destination, F_duration, F_interests, F_accommodationType, F_pace]"
  by (simp add: pushed_questions_def question_fields)

subsection \<open>The matcher on the pattern of the destination confidence\<close>

lemma lit_prefix_exact: "lit_prefix False l s \<longleftrightarrow> prefix l s"
  by (induction False l s rule: lit_prefix.induct) auto

lemma search_None_iff:
  "search ic r s = None \<longleftrightarrow> (\<forall>t. suffix t s \<longrightarrow> matches ic r (t, []) = [])"
proof (induction s)
  case Nil
  then show ?case by (auto split: list.splits)
next
  case (Cons x xs)
  show ?case
  proof (cases "matches ic r (x # xs, [])")
    case Nil
    with Cons show ?thesis
      by (auto simp: suffix_Cons)
  next
    case (Cons m ms)
    then show ?thesis
      by (cases m) (auto simp: suffix_Cons)
  qed
qed

lemma matches_Plus_nonempty:
  "matches ic (Plus c) (u, caps) \<noteq> [] \<longleftrightarrow> (\<exists>x r. u = x # r \<and> in_cls c x)"
  by (cases u) auto

lemma matches_Seq_single:
  "matches ic (Seq [r]) st \<noteq> [] \<longleftrightarrow> matches ic r st \<noteq> []"
  by (cases "matches ic r st") auto

lemma set_matches_Plus:
  "st \<in> set (matches ic (Plus c) (u, caps)) \<longleftrightarrow>
     (\<exists>k. 1 \<le> k \<and> k \<le> length (takeWhile (in_cls c) u) \<and> st = (drop k u, caps))"
  by (auto simp: image_iff)

lemma matches_Seq_Cons_nonempty:
  "matches ic (Seq (r # rs)) st \<noteq> [] \<longleftrightarrow>
     (\<exists>st'. st' \<in> set (matches ic r st) \<and> matches ic (Seq rs) st' \<noteq> [])"
  by auto

lemma space_is_class: "is_space x \<Longrightarrow> in_cls AlphaSpaceComma x"
  by simp

lemma space_run_step:
  assumes "1 \<le> k" "k \<le> length (takeWhile (in_cls Space) u)" "drop k u = c # r"
    "in_cls AlphaSpaceComma c"
  shows "\<exists>x c rest. u = x # c # rest \<and> is_space x \<and> in_cls AlphaSpaceComma c"
proof -
  from assms(1) obtain j where j: "k = Suc j"
    by (cases k) auto
  from assms(2) j obtain x u' where u: "u = x # u'" and x: "is_space x"
    by (cases u) (auto split: if_splits)
  show ?thesis
  proof (cases j)
    case 0
    with assms(3,4) u j x show ?thesis by simp
  next
    case (Suc i)
    with assms(3) u j obtain y rest where u': "u' = y # rest"
      by (cases u') auto
    from assms(2) u x u' j Suc have "is_space y"
      by (simp split: if_splits)
    with u u' x show ?thesis
      by simp
  qed
qed

lemma space_then_class_dest:
  assumes "matches ic (Seq [Plus Space, Plus AlphaSpaceComma]) (u, caps) \<noteq> []"
  shows "\<exists>x c rest. u = x # c # rest \<and> is_space x \<and> in_cls AlphaSpaceComma c"
proof -
  from assms obtain st where st: "st \<in> set (matches ic (Plus Space) (u, caps))"
    and m: "matches ic (Seq [Plus AlphaSpaceComma]) st \<noteq> []"
    by (subst (asm) matches_Seq_Cons_nonempty) blast
  from st obtain k where k: "1 \<le> k" "k \<le> length (takeWhile (in_cls Space) u)"
    and st': "st = (drop k u, caps)"
    by (subst (asm) set_matches_Plus) blast
  from m have "matches ic (Plus AlphaSpaceComma) (drop k u, caps) \<noteq> []"
    unfolding st' matches_Seq_single .
  then obtain c r where "drop k u = c # r" "in_cls AlphaSpaceComma c"
    by (subst (asm) matches_Plus_nonempty) blast
  with k show ?thesis
    by (rule space_run_step)
qed

lemma space_then_class_intro:
  assumes "is_space x" "in_cls AlphaSpaceComma c"
  shows "matches ic (Seq [Plus Space, Plus AlphaSpaceComma]) (x # c # rest, caps) \<noteq> []"
proof -
  have "(c # rest, caps) \<in> set (matches ic (Plus Space) (x # c # rest, caps))"
    by (subst set_matches_Plus) (use assms in \<open>intro exI [of _ 1]; simp\<close>)
  moreover have "matches ic (Seq [Plus AlphaSpaceComma]) (c # rest, caps) \<noteq> []"
    by (simp only: matches_Seq_single matches_Plus_nonempty) (use assms in blast)
  ultimately show ?thesis
    by (subst matches_Seq_Cons_nonempty) blast
qed

lemma space_then_class:
  "matches ic (Seq [Plus Space, Plus AlphaSpaceComma]) (u, caps) \<noteq> [] \<longleftrightarrow>
     (\<exists>x c rest. u = x # c # rest \<and> is_space x \<and> in_cls AlphaSpaceComma c)"
  using space_then_class_dest space_then_class_intro by blast

lemma matches_Lit_exact:
  "matches False (Lit l) (t, caps) = (if prefix l t then [(drop (length l) t, caps)] else [])"
  by (simp add: lit_prefix_exact)

lemma matches_Alt_Lits:
  "st \<in> set (matches False (Alt (map Lit ws)) (t, caps)) \<longleftrightarrow>
     (\<exists>w. w \<in> set ws \<and> prefix w t \<and> st = (drop (length w) t, caps))"
  by (auto simp: lit_prefix_exact)

lemma to_phrase_at:
  "matches False to_phrase (t, []) \<noteq> [] \<longleftrightarrow>
     (\<exists>w x c post. t = w @ x # c # post \<and> w \<in> set to_word_strings
        \<and> is_space x \<and> in_cls AlphaSpaceComma c)"
  (is "?L \<longleftrightarrow> ?R")
proof
  assume ?L
  then obtain w where w: "w \<in> set to_word_strings" "prefix w t"
    and m: "matches False (Seq [Plus Space, Plus AlphaSpaceComma]) (drop (length w) t, []) \<noteq> []"
    unfolding to_phrase_def to_words_def matches_Seq_Cons_nonempty matches_Alt_Lits by blast
  from m obtain x c rest where "drop (length w) t = x # c # rest" "is_space x"
    "in_cls AlphaSpaceComma c"
    unfolding space_then_class by blast
  moreover from w have "t = w @ drop (length w) t"
    by (auto simp: prefix_def)
  ultimately show ?R
    using w by metis
next
  assume ?R
  then obtain w x c post where t: "t = w @ x # c # post" and w: "w \<in> set to_word_strings"
    and xc: "is_space x" "in_cls AlphaSpaceComma c"
    by blast
  have "(drop (length w) t, []) \<in> set (matches False (Alt (map Lit to_word_strings)) (t, []))"
    unfolding matches_Alt_Lits using t w by auto
  moreover have "matches False (Seq [Plus Space, Plus AlphaSpaceComma]) (drop (length w) t, []) \<noteq> []"
    unfolding space_then_class using t xc by simp
  ultimately show ?L
    unfolding to_phrase_def to_words_def matches_Seq_Cons_nonempty by blast
qed

lemma test_to_phrase_iff: "test_to_phrase s \<longleftrightarrow> has_to_phrase s"
proof -
  have "test_to_phrase s \<longleftrightarrow> (\<exists>t. suffix t s \<and> matches False to_phrase (t, []) \<noteq> [])"
    unfolding test_to_phrase_def search_None_iff by blast
  also have "\<dots> \<longleftrightarrow> has_to_phrase s"
    unfolding to_phrase_at has_to_phrase_def suffix_def by (metis append.assoc)
  finally show ?thesis .
qed

subsection \<open>What a match leaves and what it needs\<close>

text \<open>
  A match leaves a suffix of the text, and whether a pattern matches does not depend on the
  captures made before it. Hence a pattern that ends like another pattern matches only
  where that one matches too.
\<close>

lemma matches_suffix:
  "x \<in> set (matches ic r st) \<Longrightarrow> suffix (fst x) (fst st)"
proof (induction ic r st arbitrary: x rule: matches.induct)
  case (9 ic r rs st)
  then obtain y where y: "y \<in> set (matches ic r st)" and x: "x \<in> set (matches ic (Seq rs) y)"
    by auto
  from "9.IH" y have "suffix (fst y) (fst st)"
    by blast
  moreover from "9.IH" y x have "suffix (fst x) (fst y)"
    by blast
  ultimately show ?case
    by (rule suffix_order.trans [rotated])
qed (auto simp: suffix_drop split: list.splits if_splits intro: suffix_order.trans suffix_ConsI)

lemma fst_matches_caps:
  "fst ` set (matches ic r (t, c)) = fst ` set (matches ic r (t, c'))"
proof (induction r arbitrary: t c c')
  case (Seq rs)
  then show ?case
  proof (induction rs arbitrary: t c c')
    case Nil
    then show ?case by simp
  next
    case (Cons r rs)
    have tail: "fst ` set (matches ic (Seq rs) (u, d)) = fst ` set (matches ic (Seq rs) (u, d'))"
      for u d d'
      using Cons by simp
    have head: "fst ` set (matches ic r (t, c)) = fst ` set (matches ic r (t, c'))"
      using Cons.prems by simp
    have step: "fst ` set (matches ic (Seq (r # rs)) (t, e)) =
        (\<Union>u \<in> fst ` set (matches ic r (t, e)). fst ` set (matches ic (Seq rs) (u, [])))" for e
    proof -
      have "fst ` set (matches ic (Seq (r # rs)) (t, e)) =
          (\<Union>y \<in> set (matches ic r (t, e)). fst ` set (matches ic (Seq rs) y))"
        by (auto simp: image_UN)
      also have "\<dots> = (\<Union>y \<in> set (matches ic r (t, e)). fst ` set (matches ic (Seq rs) (fst y, [])))"
        using tail by (metis prod.collapse)
      also have "\<dots> = (\<Union>u \<in> fst ` set (matches ic r (t, e)). fst ` set (matches ic (Seq rs) (u, [])))"
        by blast
      finally show ?thesis .
    qed
    show ?case
      by (simp only: step head)
  qed
next
  case (Alt rs)
  have "(\<Union>x\<in>set rs. fst ` set (matches ic x (t, c))) =
      (\<Union>x\<in>set rs. fst ` set (matches ic x (t, c')))"
    by (rule SUP_cong [OF refl]) (rule Alt)
  then show ?case
    by (simp add: image_UN)
next
  case (Grp r)
  have "fst ` set (matches ic (Grp r) (t, e)) = fst ` set (matches ic r (t, e))" for e
    by (force simp: image_iff)
  with Grp [of t c c'] show ?case
    by simp
next
  case (Opt r)
  from Opt [of t c c'] show ?case
    by (simp add: image_Un)
next
  case (Lit l)
  show ?case
    by (cases "lit_prefix ic l t") simp_all
next
  case (One x)
  show ?case
    by (cases t) (auto simp: image_iff)
next
  case Eos
  show ?case
    by (cases t) simp_all
qed (simp_all add: image_image)

lemma matches_nonempty_caps:
  assumes "matches ic r (t, c) \<noteq> []"
  shows "matches ic r (t, c') \<noteq> []"
proof -
  from assms have "fst ` set (matches ic r (t, c)) \<noteq> {}"
    by simp
  then have "fst ` set (matches ic r (t, c')) \<noteq> {}"
    using fst_matches_caps [of ic r t c c'] by simp
  then show ?thesis
    by auto
qed

lemma matches_Seq_append:
  "matches ic (Seq (rs1 @ rs2)) (t, c) \<noteq> [] \<Longrightarrow>
     \<exists>t'. suffix t' t \<and> matches ic (Seq rs2) (t', []) \<noteq> []"
proof (induction rs1 arbitrary: t c)
  case Nil
  then show ?case
    using matches_nonempty_caps [of ic "Seq rs2" t c "[]"] by auto
next
  case (Cons r rs1)
  from Cons.prems obtain st where st: "st \<in> set (matches ic r (t, c))"
    and m: "matches ic (Seq (rs1 @ rs2)) st \<noteq> []"
    unfolding append_Cons matches_Seq_Cons_nonempty by blast
  from m Cons.IH [of "fst st" "snd st"] obtain t' where "suffix t' (fst st)"
    "matches ic (Seq rs2) (t', []) \<noteq> []"
    by auto
  moreover from st have "suffix (fst st) t"
    using matches_suffix by fastforce
  ultimately show ?case
    using suffix_order.trans by blast
qed

lemma search_Seq_append:
  assumes "search ic (Seq (rs1 @ rs2)) s \<noteq> None"
  shows "search ic (Seq rs2) s \<noteq> None"
proof -
  from assms obtain t where "suffix t s" "matches ic (Seq (rs1 @ rs2)) (t, []) \<noteq> []"
    unfolding search_None_iff by blast
  then obtain t' where "suffix t' s" "matches ic (Seq rs2) (t', []) \<noteq> []"
    using matches_Seq_append suffix_order.trans by blast
  then show ?thesis
    unfolding search_None_iff by blast
qed

subsection \<open>The range patterns behind the first pattern\<close>

text \<open>
  Both range patterns end in the first pattern of the table, \<open>(\d+)\s*days?\<close>. A text in
  which a range pattern matches is therefore matched by the first pattern, and from the
  table as loaded \<open>extractDuration\<close> returns the number of that match.
\<close>

lemma range_patterns_shadowed:
  assumes "search True (source (d_pattern (durationPatterns ! 12))) s \<noteq> None
     \<or> search True (source (d_pattern (durationPatterns ! 13))) s \<noteq> None"
  shows "search True (source (d_pattern (durationPatterns ! 0))) s \<noteq> None"
proof -
  have 0: "source (d_pattern (durationPatterns ! 0)) =
      Seq [Grp (Plus Digit), Star Space, Lit ''day'', Opt (Lit ''s'')]"
    by (simp add: durationPatterns_def regexp_g_def)
  have 12: "source (d_pattern (durationPatterns ! 12)) =
      Seq ([Grp (Plus Digit), Lit ''-'']
           @ [Grp (Plus Digit), Star Space, Lit ''day'', Opt (Lit ''s'')])"
    by (simp add: durationPatterns_def regexp_g_def)
  have 13: "source (d_pattern (durationPatterns ! 13)) =
      Seq ([Grp (Plus Digit), Star Space, Lit ''to'', Star Space]
           @ [Grp (Plus Digit), Star Space, Lit ''day'', Opt (Lit ''s'')])"
    by (simp add: durationPatterns_def regexp_g_def)
  from assms show ?thesis
    unfolding 0 12 13 using search_Seq_append by blast
qed

lemma fresh_table_takes_first_pattern:
  assumes "search True (source (d_pattern (durationPatterns ! 0))) s \<noteq> None"
  shows "\<exists>m. fst (exec (d_pattern (durationPatterns ! 0)) s) = Some m
     \<and> fst (extractDuration durationPatterns s) = times (parseInt (grp m 1)) 1"
proof -
  obtain p ps where tab: "durationPatterns = p # ps" and p: "p = durationPatterns ! 0"
    by (simp add: durationPatterns_def)
  have props: "d_value p = None" "d_range p = False" "d_multiplier p = Some 1"
    "lastIndex (d_pattern p) = 0" "ignoreCase (d_pattern p) = True"
    unfolding p by (simp_all add: durationPatterns_def regexp_g_def)
  from assms obtain m re where ex: "exec (d_pattern p) s = (Some m, re)"
    unfolding p [symmetric] exec_def using props by (auto split: option.splits)
  then have "fst (extractDuration durationPatterns s) = times (parseInt (grp m 1)) 1"
    unfolding tab extractDuration_def using props by (simp split: prod.splits)
  with ex show ?thesis
    unfolding p by simp
qed

subsection \<open>The first destination pattern and the test of the confidence\<close>

text \<open>
  On a lower-cased text the first destination pattern matches only where the pattern of
  the confidence matches, since it is that pattern followed by the terminator.
\<close>

lemma map_of_zip_disjoint:
  assumes "set xs \<inter> set ys = {}" "map_of (zip xs ys) c = Some l"
  shows "map_of (zip xs ys) l = None"
proof -
  from assms(2) have "(c, l) \<in> set (zip xs ys)"
    by (rule map_of_SomeD)
  then have "l \<in> set ys"
    by (rule set_zip_rightD)
  with assms(1) have "l \<notin> set xs"
    by auto
  then have "l \<notin> fst ` set (zip xs ys)"
    by (auto dest: set_zip_leftD)
  then show ?thesis
    by (simp add: map_of_eq_None_iff)
qed

lemma case_tables_disjoint:
  "set (upper_letters @ latin1_upper) \<inter> set (lower_letters @ latin1_lower) = {}"
  by (simp add: upper_letters_def latin1_upper_def lower_letters_def latin1_lower_def)

lemma lower_char_idem: "lower_char (lower_char c) = lower_char c"
proof (cases "map_of (zip (upper_letters @ latin1_upper) (lower_letters @ latin1_lower)) c")
  case None
  then show ?thesis
    by (simp add: lower_char_def)
next
  case (Some l)
  with map_of_zip_disjoint [OF case_tables_disjoint Some] show ?thesis
    by (simp add: lower_char_def)
qed

lemma lit_prefix_lowered:
  assumes "\<forall>l \<in> set w. lower_char l = l" "\<forall>c \<in> set t. lower_char c = c" "lit_prefix ic w t"
  shows "prefix w t"
  using assms by (induction ic w t rule: lit_prefix.induct) (auto split: if_splits)

lemma to_words_lower: "w \<in> set to_word_strings \<Longrightarrow> \<forall>l \<in> set w. lower_char l = l"
  by (auto simp: to_word_strings_def lower_char_table)

lemma matches_Alt_Lits_any:
  "st \<in> set (matches ic (Alt (map Lit ws)) (t, caps)) \<longleftrightarrow>
     (\<exists>w. w \<in> set ws \<and> lit_prefix ic w t \<and> st = (drop (length w) t, caps))"
  by auto

lemma matches_Grp_nonempty: "matches ic (Grp r) (t, c) \<noteq> [] \<longleftrightarrow> matches ic r (t, c) \<noteq> []"
  by simp

lemma matches_LazyPlus_nonempty:
  "matches ic (LazyPlus c) (u, caps) \<noteq> [] \<longleftrightarrow> (\<exists>x r. u = x # r \<and> in_cls c x)"
  by (cases u) auto

lemma to_pattern_phrase_at:
  assumes low: "\<forall>c \<in> set t. lower_char c = c"
    and m: "matches ic to_pattern (t, []) \<noteq> []"
  shows "\<exists>w x c post. t = w @ x # c # post \<and> w \<in> set to_word_strings
           \<and> is_space x \<and> in_cls AlphaSpaceComma c"
proof -
  from m obtain st1 where st1: "st1 \<in> set (matches ic (Alt (map Lit to_word_strings)) (t, []))"
    and m1: "matches ic (Seq [Plus Space, Grp (LazyPlus AlphaSpaceComma), terminator]) st1 \<noteq> []"
    unfolding to_pattern_def to_words_def by (subst (asm) matches_Seq_Cons_nonempty) blast
  from st1 obtain w where w: "w \<in> set to_word_strings" "lit_prefix ic w t"
    and st1': "st1 = (drop (length w) t, [])"
    unfolding matches_Alt_Lits_any by blast
  from m1 obtain st2 where st2: "st2 \<in> set (matches ic (Plus Space) (drop (length w) t, []))"
    and m2: "matches ic (Seq [Grp (LazyPlus AlphaSpaceComma), terminator]) st2 \<noteq> []"
    unfolding st1' by (subst (asm) matches_Seq_Cons_nonempty) blast
  from st2 obtain k where k: "1 \<le> k" "k \<le> length (takeWhile (in_cls Space) (drop (length w) t))"
    and st2': "st2 = (drop k (drop (length w) t), [])"
    by (subst (asm) set_matches_Plus) blast
  from m2 obtain st3 where "st3 \<in> set (matches ic (Grp (LazyPlus AlphaSpaceComma)) st2)"
    by (subst (asm) matches_Seq_Cons_nonempty) blast
  then have "matches ic (LazyPlus AlphaSpaceComma) (drop k (drop (length w) t), []) \<noteq> []"
    unfolding st2' by (auto simp del: matches.simps(5))
  then obtain c r where "drop k (drop (length w) t) = c # r" "in_cls AlphaSpaceComma c"
    unfolding matches_LazyPlus_nonempty by blast
  with k obtain x c' rest where u: "drop (length w) t = x # c' # rest" "is_space x"
    "in_cls AlphaSpaceComma c'"
    using space_run_step by blast
  from w low have "prefix w t"
    using lit_prefix_lowered to_words_lower by blast
  then have "t = w @ drop (length w) t"
    by (auto simp: prefix_def)
  with u w show ?thesis
    by metis
qed

lemma to_pattern_phrase:
  assumes "\<forall>c \<in> set s. lower_char c = c" "search ic to_pattern s \<noteq> None"
  shows "has_to_phrase s"
proof -
  from assms(2) obtain t where t: "suffix t s" "matches ic to_pattern (t, []) \<noteq> []"
    unfolding search_None_iff by blast
  from t(1) assms(1) have "\<forall>c \<in> set t. lower_char c = c"
    by (auto simp: suffix_def)
  from to_pattern_phrase_at [OF this t(2)] t(1) show ?thesis
    unfolding has_to_phrase_def suffix_def by (metis append.assoc)
qed

lemma toLowerCase_lowered: "\<forall>c \<in> set (toLowerCase p). lower_char c = c"
  by (simp add: toLowerCase_def lower_char_idem)

lemma exec_fresh:
  "fst (exec (regexp_g r) s) = None \<longleftrightarrow> search True r s = None"
  by (simp add: exec_def regexp_g_def split: option.splits prod.splits)

lemma destination_loop_skip:
  "search True r s = None \<Longrightarrow> destination_loop (r # rs) s = destination_loop rs s"
  using exec_fresh [of r s] by simp

lemma destination_loop_single:
  "destination_loop (r # rs) s =
     (case destination_loop [r] s of Some d \<Rightarrow> Some d | None \<Rightarrow> destination_loop rs s)"
  by (simp add: Let_def split: option.splits)

lemma destination_loop_matched:
  "destination_loop [r] s = Some d \<Longrightarrow> search True r s \<noteq> None"
  using exec_fresh [of r s] by (auto split: option.splits)

lemma extractDestination_no_gazetteer:
  assumes "\<not> list_ex (str_includes s) destinations"
  shows "extractDestination s =
     (case destination_loop destination_patterns s of Some d \<Rightarrow> d | None \<Rightarrow> ''California'')"
proof -
  from assms have "find (str_includes s) destinations = None"
    by (simp add: find_None_iff list_ex_iff)
  then show ?thesis
    by (simp add: extractDestination_def)
qed

lemma destination_by_to_pattern:
  assumes "\<not> list_ex (str_includes (toLowerCase prompt)) destinations"
    and "destination_loop [to_pattern] (toLowerCase prompt) = Some d"
  shows "destination (fst (parsePrompt ps prompt)) = d"
    and "c_destination (confidence (fst (parsePrompt ps prompt))) = 0.7"
proof -
  from assms(2) have "destination_loop destination_patterns (toLowerCase prompt) = Some d"
    unfolding destination_patterns_def by (subst destination_loop_single) simp
  with assms(1) show "destination (fst (parsePrompt ps prompt)) = d"
    by (simp add: destination_parsePrompt extractDestination_no_gazetteer)
  from assms(2) have "has_to_phrase (toLowerCase prompt)"
    using to_pattern_phrase [OF toLowerCase_lowered] destination_loop_matched by blast
  with assms(1) show "c_destination (confidence (fst (parsePrompt ps prompt))) = 0.7"
    by (simp add: confidence_parsePrompt calculateConfidence_fields test_to_phrase_iff)
qed

lemma destination_without_to_phrase:
  assumes "\<not> list_ex (str_includes (toLowerCase prompt)) destinations"
    and "\<not> has_to_phrase (toLowerCase prompt)"
  shows "destination (fst (parsePrompt ps prompt)) =
      (case destination_loop [around_pattern, in_pattern] (toLowerCase prompt) of
         Some d \<Rightarrow> d | None \<Rightarrow> ''California'')"
    and "c_destination (confidence (fst (parsePrompt ps prompt))) =
      (if destination (fst (parsePrompt ps prompt)) \<noteq> ''California'' then 0.6 else 0.3)"
proof -
  from assms(2) have "search True to_pattern (toLowerCase prompt) = None"
    using to_pattern_phrase [OF toLowerCase_lowered] by blast
  then have "destination_loop destination_patterns (toLowerCase prompt) =
      destination_loop [around_pattern, in_pattern] (toLowerCase prompt)"
    unfolding destination_patterns_def by (rule destination_loop_skip)
  with assms(1) show "destination (fst (parsePrompt ps prompt)) =
      (case destination_loop [around_pattern, in_pattern] (toLowerCase prompt) of
         Some d \<Rightarrow> d | None \<Rightarrow> ''California'')"
    by (simp add: destination_parsePrompt extractDestination_no_gazetteer)
  from assms show "c_destination (confidence (fst (parsePrompt ps prompt))) =
      (if destination (fst (parsePrompt ps prompt)) \<noteq> ''California'' then 0.6 else 0.3)"
    by (simp add: confidence_parsePrompt calculateConfidence_fields test_to_phrase_iff
          destination_parsePrompt)
qed

subsection \<open>The answer handler\<close>

lemma label_not_inherited:
  "''2-3 days (weekend)'' \<notin> set object_prototype_keys"
  "''4-6 days (long trip)'' \<notin> set object_prototype_keys"
  "''7+ days (extended journey)'' \<notin> set object_prototype_keys"
  "''camping'' \<notin> set object_prototype_keys"
  by (simp_all add: object_prototype_keys_def)

lemma answered_duration_own:
  assumes "a \<notin> set object_prototype_keys"
  shows "answered_duration a c d =
     Inr (if a = ''2-3 days (weekend)'' then Num 3
          else if a = ''4-6 days (long trip)'' then Num 5
          else if a = ''7+ days (extended journey)'' then Num 7
          else if truthy (parseInt a) then parseInt a
          else if truthy c then c
          else d)"
  using assms
  by (simp add: answered_duration_def get_property_def durationMap_def or_else_def truthy_def)

lemma answered_accommodation_own:
  assumes "a \<notin> set object_prototype_keys"
  shows "answered_accommodation a =
     Inr (if a = ''Camping (nature & adventure)'' \<or> a = ''camping'' then camping else hotel)"
  using assms
  by (auto simp: answered_accommodation_def get_property_def typeMap_def label_not_inherited)

lemma answered_pace_own:
  assumes "a \<notin> set object_prototype_keys"
  shows "answered_pace a c =
     Inr (if a = ''Relaxed (slow & peaceful)'' then Some relaxed
          else if a = ''Moderate (balanced)'' then Some moderate
          else if a = ''Fast (action-packed)'' then Some fast
          else c)"
  using assms by (simp add: answered_pace_def get_property_def paceMap_def)

lemma answered_duration_idem:
  "answered_duration a c d = Inr n \<Longrightarrow> answered_duration a n d = Inr n"
  by (auto simp: answered_duration_def or_else_def split: property.splits if_splits)

lemma answered_pace_idem:
  "answered_pace a c = Inr q \<Longrightarrow> answered_pace a q = Inr q"
  by (auto simp: answered_pace_def split: property.splits)

lemma handle_destination:
  "handleClarificationAnswer p d F_destination a =
     Inr (p\<lparr>destination := a,
            confidence := (confidence p)
              \<lparr>c_destination := 0.95,
               overall := (0.95 + c_duration (confidence p) + c_interests (confidence p)
                  + c_accommodationType (confidence p) + c_pace (confidence p)) / 5\<rparr>\<rparr>)"
  by (simp add: handleClarificationAnswer_def commit_def Let_def)

lemma handle_interests:
  "handleClarificationAnswer p d F_interests a =
     Inr (p\<lparr>interests := (if a \<in> set (interests p) then interests p else interests p @ [a]),
            confidence := (confidence p)
              \<lparr>c_interests := min 0.95 (c_interests (confidence p) + 0.25),
               overall := (c_destination (confidence p) + c_duration (confidence p)
                  + min 0.95 (c_interests (confidence p) + 0.25)
                  + c_accommodationType (confidence p) + c_pace (confidence p)) / 5\<rparr>\<rparr>)"
  by (simp add: handleClarificationAnswer_def commit_def Let_def)

lemma handle_duration:
  assumes "a \<notin> set object_prototype_keys"
  shows "handleClarificationAnswer p d F_duration a =
     Inr (p\<lparr>duration :=
              (if a = ''2-3 days (weekend)'' then Num 3
               else if a = ''4-6 days (long trip)'' then Num 5
               else if a = ''7+ days (extended journey)'' then Num 7
               else if truthy (parseInt a) then parseInt a
               else if truthy (duration p) then duration p
               else d),
            confidence := (confidence p)
              \<lparr>c_duration := 0.95,
               overall := (c_destination (confidence p) + 0.95 + c_interests (confidence p)
                  + c_accommodationType (confidence p) + c_pace (confidence p)) / 5\<rparr>\<rparr>)"
  by (simp add: handleClarificationAnswer_def commit_def Let_def answered_duration_own [OF assms])

lemma handle_accommodation:
  assumes "a \<notin> set object_prototype_keys"
  shows "handleClarificationAnswer p d F_accommodationType a =
     Inr (p\<lparr>accommodationType :=
              Some (if a = ''Camping (nature & adventure)'' \<or> a = ''camping'' then camping
                    else hotel),
            confidence := (confidence p)
              \<lparr>c_accommodationType := 0.95,
               overall := (c_destination (confidence p) + c_duration (confidence p)
                  + c_interests (confidence p) + 0.95 + c_pace (confidence p)) / 5\<rparr>\<rparr>)"
  by (simp add: handleClarificationAnswer_def commit_def Let_def answered_accommodation_own [OF assms])

lemma handle_pace:
  assumes "a \<notin> set object_prototype_keys"
  shows "handleClarificationAnswer p d F_pace a =
     Inr (p\<lparr>pace :=
              (if a = ''Relaxed (slow & peaceful)'' then Some relaxed
               else if a = ''Moderate (balanced)'' then Some moderate
               else if a = ''Fast (action-packed)'' then Some fast
               else pace p),
            confidence := (confidence p)
              \<lparr>c_pace := 0.95,
               overall := (c_destination (confidence p) + c_duration (confidence p)
                  + c_interests (confidence p) + c_accommodationType (confidence p) + 0.95)
                  / 5\<rparr>\<rparr>)"
  by (simp add: handleClarificationAnswer_def commit_def Let_def answered_pace_own [OF assms])

lemma handle_mean:
  "handleClarificationAnswer p d f a = Inr r \<Longrightarrow>
     overall (confidence r) =
       (c_destination (confidence r) + c_duration (confidence r) + c_interests (confidence r)
        + c_accommodationType (confidence r) + c_pace (confidence r)) / 5"
  by (cases f) (auto simp: handleClarificationAnswer_def commit_def Let_def split: sum.splits)

lemma again_destination:
  "answer_again (handleClarificationAnswer p d F_destination a) d F_destination b =
     handleClarificationAnswer p d F_destination b"
  by (simp add: answer_again_def handleClarificationAnswer_def commit_def Let_def)

lemma again_accommodation:
  assumes "a \<notin> set object_prototype_keys"
  shows "answer_again (handleClarificationAnswer p d F_accommodationType a) d
       F_accommodationType b =
     handleClarificationAnswer p d F_accommodationType b"
  using answered_accommodation_own [OF assms]
  by (simp add: answer_again_def handleClarificationAnswer_def commit_def Let_def split: sum.splits)

lemma again_duration_same:
  "answer_again (handleClarificationAnswer p d F_duration a) d F_duration a =
     handleClarificationAnswer p d F_duration a"
  by (auto simp: answer_again_def handleClarificationAnswer_def commit_def Let_def
        answered_duration_idem split: sum.splits)

lemma again_pace_same:
  "answer_again (handleClarificationAnswer p d F_pace a) d F_pace a =
     handleClarificationAnswer p d F_pace a"
  by (auto simp: answer_again_def handleClarificationAnswer_def commit_def Let_def
        answered_pace_idem split: sum.splits)

lemma inherited_key_stored:
  assumes "a \<in> set object_prototype_keys"
  shows "handleClarificationAnswer p d F_duration a = Inl (Function_in F_duration)"
    "handleClarificationAnswer p d F_accommodationType a = Inl (Function_in F_accommodationType)"
    "handleClarificationAnswer p d F_pace a = Inl (Function_in F_pace)"
proof -
  from assms have "map_of durationMap a = None" "map_of typeMap a = None" "map_of paceMap a = None"
    by (auto simp: object_prototype_keys_def durationMap_def typeMap_def paceMap_def)
  with assms show "handleClarificationAnswer p d F_duration a = Inl (Function_in F_duration)"
    "handleClarificationAnswer p d F_accommodationType a = Inl (Function_in F_accommodationType)"
    "handleClarificationAnswer p d F_pace a = Inl (Function_in F_pace)"
    by (simp_all add: handleClarificationAnswer_def Let_def answered_duration_def
          answered_accommodation_def answered_pace_def get_property_def)
qed

lemma again_duration_mapped:
  assumes "a \<notin> set object_prototype_keys" "b \<notin> set object_prototype_keys"
    and "b \<in> set (map fst durationMap) \<or> truthy (parseInt b)"
  shows "answer_again (handleClarificationAnswer p d F_duration a) d F_duration b =
     handleClarificationAnswer p d F_duration b"
  using assms(3)
  by (auto simp: answer_again_def handle_duration [OF assms(1)] handle_duration [OF assms(2)]
        durationMap_def)

lemma again_pace_mapped:
  assumes "a \<notin> set object_prototype_keys" "b \<in> set (map fst paceMap)"
  shows "answer_again (handleClarificationAnswer p d F_pace a) d F_pace b =
     handleClarificationAnswer p d F_pace b"
proof -
  from assms(2) have "b \<notin> set object_prototype_keys"
    by (auto simp: paceMap_def object_prototype_keys_def)
  with assms show ?thesis
    by (auto simp: answer_again_def handle_pace paceMap_def)
qed

subsection \<open>Evaluation on the inputs of the claims\<close>

lemma lower_paris: "toLowerCase ''fly to Paris'' = ''fly to paris''"
  by code_simp

lemma gazetteer_paris: "\<not> list_ex (str_includes ''fly to paris'') destinations"
  by code_simp

lemma loop_paris: "destination_loop [to_pattern] ''fly to paris'' = Some ''Paris''"
  by code_simp

lemma lower_empty: "toLowerCase '''' = ''''"
  by code_simp

lemma gazetteer_empty: "\<not> list_ex (str_includes '''') destinations"
  by code_simp

lemma phrase_empty: "\<not> test_to_phrase ''''"
  by code_simp

lemma dest_empty: "extractDestination '''' = ''California''"
  by code_simp

lemma loop2_tuscany:
  "destination_loop [around_pattern, in_pattern] ''drive around tuscany'' = Some ''Tuscany''"
  by code_simp

lemma interests_empty:
  "extractInterests (toLowerCase '''') = [''scenic drives'', ''nature'', ''photography'']"
  by code_simp

lemma parseInt_10_days: "parseInt ''10 days'' = Num 10"
  by code_simp

lemma parseInt_soon: "parseInt ''soon'' = NaN"
  by code_simp

lemma parseInt_4: "parseInt ''4'' = Num 4"
  by code_simp

lemma typed_not_inherited:
  "''10 days'' \<notin> set object_prototype_keys" "''soon'' \<notin> set object_prototype_keys"
  "''4'' \<notin> set object_prototype_keys"
  by (simp_all add: object_prototype_keys_def)

text \<open>The no-break space is white space: \<open>to\<close>, \<open>0xA0\<close>, \<open>paris\<close> parses to Paris.\<close>

lemma lower_nbsp: "toLowerCase (''to'' @ [CHR 0xA0] @ ''Paris'') = ''to'' @ [CHR 0xA0] @ ''paris''"
  by code_simp

lemma gazetteer_nbsp:
  "\<not> list_ex (str_includes (''to'' @ [CHR 0xA0] @ ''paris'')) destinations"
  by code_simp

lemma loop_nbsp:
  "destination_loop [to_pattern] (''to'' @ [CHR 0xA0] @ ''paris'') = Some ''Paris''"
  by code_simp

lemma no_break_space_parses:
  "destination (fst (parsePrompt ps (''to'' @ [CHR 0xA0] @ ''Paris''))) = ''Paris''"
  "c_destination (confidence (fst (parsePrompt ps (''to'' @ [CHR 0xA0] @ ''Paris'')))) = 0.7"
  using destination_by_to_pattern [of "''to'' @ [CHR 0xA0] @ ''Paris''" "''Paris''" ps]
  by (simp_all only: lower_nbsp gazetteer_nbsp loop_nbsp not_False_eq_True simp_thms)

lemma parse_hiking: "fst (parsePrompt durationPatterns ''hiking trip'') = hiking_parsed"
  unfolding hiking_parsed_def by code_simp

lemma lower_tuscany: "toLowerCase ''drive around tuscany'' = ''drive around tuscany''"
  by code_simp

lemma gazetteer_tuscany: "\<not> list_ex (str_includes ''drive around tuscany'') destinations"
  by code_simp

lemma phrase_tuscany: "\<not> test_to_phrase ''drive around tuscany''"
  by code_simp

lemma loop_tuscany:
  "destination_loop destination_patterns ''drive around tuscany'' = Some ''Tuscany''"
  by code_simp

lemma dest_tuscany: "extractDestination ''drive around tuscany'' = ''Tuscany''"
  by code_simp

lemma lower_nice: "toLowerCase ''I want to go somewhere nice'' = ''i want to go somewhere nice''"
  by code_simp

lemma gazetteer_nice: "\<not> list_ex (str_includes ''i want to go somewhere nice'') destinations"
  by code_simp

lemma phrase_nice: "test_to_phrase ''i want to go somewhere nice''"
  by code_simp

lemma loop_nice: "destination_loop destination_patterns ''i want to go somewhere nice'' = None"
  by code_simp

lemma dest_nice: "extractDestination ''i want to go somewhere nice'' = ''California''"
  by code_simp

lemma found_empty: "foundInterests (toLowerCase '''') = []"
  by code_simp

lemma lower_3days: "toLowerCase ''3 days 3 days'' = ''3 days 3 days''"
  by code_simp

lemma first_3days: "fst (extractDuration durationPatterns ''3 days 3 days'') = Num 3"
  by code_simp

lemma second_3days:
  "fst (extractDuration
          (snd (confidence_loop (snd (extractDuration durationPatterns ''3 days 3 days''))
                  ''3 days 3 days''))
          ''3 days 3 days'') = Num 5"
  by code_simp

lemma lower_road:
  "toLowerCase
     ''I want a 7-day road trip through California visiting national parks and wineries'' =
   ''i want a 7-day road trip through california visiting national parks and wineries''"
  by code_simp

lemma dest_road:
  "extractDestination
     ''i want a 7-day road trip through california visiting national parks and wineries'' =
   ''California''"
  by code_simp

lemma gazetteer_road:
  "list_ex
     (str_includes
        ''i want a 7-day road trip through california visiting national parks and wineries'')
     destinations"
  by code_simp

lemma duration_road:
  "fst (extractDuration durationPatterns
          ''i want a 7-day road trip through california visiting national parks and wineries'')
   = Num 7"
  by code_simp

lemma confidence_loop_road:
  "fst (confidence_loop
          (snd (extractDuration durationPatterns
             ''i want a 7-day road trip through california visiting national parks and wineries''))
          ''i want a 7-day road trip through california visiting national parks and wineries'')
   = False"
  by code_simp

lemma lower_range: "toLowerCase ''3-5 days'' = ''3-5 days''"
  by code_simp

lemma duration_range: "fst (extractDuration durationPatterns ''3-5 days'') = Num 5"
  by code_simp

lemma lower_range_to: "toLowerCase ''3 to 5 days'' = ''3 to 5 days''"
  by code_simp

lemma duration_range_to: "fst (extractDuration durationPatterns ''3 to 5 days'') = Num 5"
  by code_simp

subsection \<open>The claims\<close>

text \<open>
  C1. Two calls of the parser in a row on the same text return the same record. The
  program does not do this: on the text \<open>3 days 3 days\<close>, parsed twice from the table as
  the module loads it, the first call returns the duration 3 and the second the duration
  5. The first call returns from the loop of \<open>extractDuration\<close> with the \<open>lastIndex\<close> of the
  first pattern at the end of its match, \<open>calculateConfidence\<close> moves it to the end of the
  second match, and the second call searches from there, finds nothing and falls through
  to the default.
\<close>

theorem parse_twice_differs:
  "duration (fst (parse_twice durationPatterns ''3 days 3 days'')) = Num 3
   \<and> duration (snd (parse_twice durationPatterns ''3 days 3 days'')) = Num 5
   \<and> fst (parse_twice durationPatterns ''3 days 3 days'')
       \<noteq> snd (parse_twice durationPatterns ''3 days 3 days'')"
proof -
  have 1: "duration (fst (parse_twice durationPatterns ''3 days 3 days'')) = Num 3"
    by (simp only: parse_twice_durations lower_3days first_3days)
  have 2: "duration (snd (parse_twice durationPatterns ''3 days 3 days'')) = Num 5"
    by (simp only: parse_twice_durations lower_3days second_3days)
  from 1 2 have "duration (fst (parse_twice durationPatterns ''3 days 3 days''))
       \<noteq> duration (snd (parse_twice durationPatterns ''3 days 3 days''))"
    by simp
  then have "fst (parse_twice durationPatterns ''3 days 3 days'')
       \<noteq> snd (parse_twice durationPatterns ''3 days 3 days'')"
    by auto
  with 1 2 show ?thesis
    by simp
qed

text \<open>
  C2. On the text of the scenario the parser returns the destination California with
  confidence 0.9 and the duration 7 with confidence 0.9. The program returns the
  destination, its confidence and the duration as claimed, and the confidence 0.4 for the
  duration: the only pattern that matches is \<open>road\s+trip\<close>, \<open>extractDuration\<close> leaves its
  \<open>lastIndex\<close> behind the match, and the test of \<open>calculateConfidence\<close> starts there.
\<close>

theorem road_trip_scenario:
  "destination (fst (parsePrompt durationPatterns
      ''I want a 7-day road trip through California visiting national parks and wineries''))
     = ''California''
   \<and> c_destination (confidence (fst (parsePrompt durationPatterns
      ''I want a 7-day road trip through California visiting national parks and wineries'')))
     = 0.9
   \<and> duration (fst (parsePrompt durationPatterns
      ''I want a 7-day road trip through California visiting national parks and wineries''))
     = Num 7
   \<and> c_duration (confidence (fst (parsePrompt durationPatterns
      ''I want a 7-day road trip through California visiting national parks and wineries'')))
     = 0.4"
  by (simp only: destination_parsePrompt duration_parsePrompt confidence_parsePrompt
        calculateConfidence_fields lower_road dest_road gazetteer_road duration_road
        confidence_loop_road if_True if_False simp_thms)

text \<open>
  C4. A text with a range \<open>N-M days\<close> or \<open>N to M days\<close> parses to the ceiling of the mean
  of \<open>N\<close> and \<open>M\<close>. The program returns \<open>M\<close>: the first pattern of the table,
  \<open>(\d+)\s*days?\<close>, matches the \<open>M days\<close> inside every such range (lemma
  \<open>range_patterns_shadowed\<close>), so from the table as loaded the two range patterns and the
  average are not reached (lemma \<open>fresh_table_takes_first_pattern\<close>). For 3 and 5 the
  claim gives 4 and the program 5.
\<close>

theorem range_returns_upper_end:
  "duration (fst (parsePrompt durationPatterns ''3-5 days'')) = Num 5
   \<and> duration (fst (parsePrompt durationPatterns ''3 to 5 days'')) = Num 5
   \<and> ceil_avg (Num 3) (Num 5) = Num 4"
  by (simp add: duration_parsePrompt lower_range duration_range lower_range_to
        duration_range_to ceil_avg_def)

text \<open>
  C7. For every record \<open>p\<close>, the questions of \<open>generateClarificationQuestions p\<close> hold no
  question for a field whose confidence is at least 0.6 and exactly one for each field whose
  confidence is below 0.6 (and none for the key \<^verbatim>\<open>confidence\<close>); their priorities
  are in the order high, medium, low; within each priority the questions stand as the five
  checks pushed them, and the fields of the whole sequence follow the order of the checks:
  destination, duration, interests, accommodationType, pace.
\<close>

theorem questions_one_per_low_field_sorted_stable:
  "length (filter (\<lambda>q. q_field q = F_destination) (generateClarificationQuestions p)) =
     (if c_destination (confidence p) < 0.6 then 1 else 0)
   \<and> length (filter (\<lambda>q. q_field q = F_duration) (generateClarificationQuestions p)) =
     (if c_duration (confidence p) < 0.6 then 1 else 0)
   \<and> length (filter (\<lambda>q. q_field q = F_interests) (generateClarificationQuestions p)) =
     (if c_interests (confidence p) < 0.6 then 1 else 0)
   \<and> length (filter (\<lambda>q. q_field q = F_accommodationType) (generateClarificationQuestions p)) =
     (if c_accommodationType (confidence p) < 0.6 then 1 else 0)
   \<and> length (filter (\<lambda>q. q_field q = F_pace) (generateClarificationQuestions p)) =
     (if c_pace (confidence p) < 0.6 then 1 else 0)
   \<and> length (filter (\<lambda>q. q_field q = F_confidence) (generateClarificationQuestions p)) = 0
   \<and> sorted (map (\<lambda>q. priorityOrder (q_priority q)) (generateClarificationQuestions p))
   \<and> filter (\<lambda>q. q_priority q = t) (generateClarificationQuestions p) =
       filter (\<lambda>q. q_priority q = t) (pushed_questions p)
   \<and> subseq (map q_field (generateClarificationQuestions p))
       [F_destination, F_duration, F_interests, F_accommodationType, F_pace]"
  unfolding generate_eq_pushed
  using count_questions [of p] pushed_sorted [of p] pushed_in_check_order [of p]
  by simp

text \<open>
  C8. For every input and every state of the pattern table, each of the five confidences
  of the parsed record lies between 0 and 1, \<open>overall\<close> is their arithmetic mean, and it
  lies between 0 and 1 as well.
\<close>

theorem confidences_in_unit_interval:
  "0 \<le> c_destination (confidence (fst (parsePrompt ps prompt)))
   \<and> c_destination (confidence (fst (parsePrompt ps prompt))) \<le> 1
   \<and> 0 \<le> c_duration (confidence (fst (parsePrompt ps prompt)))
   \<and> c_duration (confidence (fst (parsePrompt ps prompt))) \<le> 1
   \<and> 0 \<le> c_interests (confidence (fst (parsePrompt ps prompt)))
   \<and> c_interests (confidence (fst (parsePrompt ps prompt))) \<le> 1
   \<and> 0 \<le> c_accommodationType (confidence (fst (parsePrompt ps prompt)))
   \<and> c_accommodationType (confidence (fst (parsePrompt ps prompt))) \<le> 1
   \<and> 0 \<le> c_pace (confidence (fst (parsePrompt ps prompt)))
   \<and> c_pace (confidence (fst (parsePrompt ps prompt))) \<le> 1
   \<and> overall (confidence (fst (parsePrompt ps prompt))) =
       (c_destination (confidence (fst (parsePrompt ps prompt)))
        + c_duration (confidence (fst (parsePrompt ps prompt)))
        + c_interests (confidence (fst (parsePrompt ps prompt)))
        + c_accommodationType (confidence (fst (parsePrompt ps prompt)))
        + c_pace (confidence (fst (parsePrompt ps prompt)))) / 5
   \<and> 0 \<le> overall (confidence (fst (parsePrompt ps prompt)))
   \<and> overall (confidence (fst (parsePrompt ps prompt))) \<le> 1"
proof -
  let ?c = "confidence (fst (parsePrompt ps prompt))"
  have d: "0 \<le> c_destination ?c \<and> c_destination ?c \<le> 1"
    by (simp add: confidence_parsePrompt calculateConfidence_fields)
  have u: "0 \<le> c_duration ?c \<and> c_duration ?c \<le> 1"
    by (simp add: confidence_parsePrompt calculateConfidence_fields)
  have i: "0 \<le> c_interests ?c \<and> c_interests ?c \<le> 1"
    by (simp add: confidence_parsePrompt calculateConfidence_fields min_def)
  have a: "0 \<le> c_accommodationType ?c \<and> c_accommodationType ?c \<le> 1"
    by (simp add: confidence_parsePrompt calculateConfidence_fields)
  have p: "0 \<le> c_pace ?c \<and> c_pace ?c \<le> 1"
    by (simp add: confidence_parsePrompt calculateConfidence_fields)
  have m: "overall ?c = (c_destination ?c + c_duration ?c + c_interests ?c
             + c_accommodationType ?c + c_pace ?c) / 5"
    unfolding confidence_parsePrompt by (rule calculateConfidence_overall)
  from d u i a p have "0 \<le> overall ?c \<and> overall ?c \<le> 1"
    unfolding m by simp
  with d u i a p m show ?thesis
    by blast
qed

text \<open>
  C9. For every input and every state of the pattern table, the interests of the parsed
  record hold no tag twice and at most six tags.
\<close>

theorem interests_distinct_at_most_six:
  "distinct (interests (fst (parsePrompt ps prompt)))
   \<and> length (interests (fst (parsePrompt ps prompt))) \<le> 6"
  by (simp add: interests_parsePrompt mapInterestsToUITags_def distinct_foldl_add_custom
        distinct_direct_tags)

text \<open>
  C10. For every input, the empty string too, and every state of the pattern table, the
  interests of the parsed record hold at least one tag: the extraction returns the default
  triple or the terms found, never the empty list, and the mapping to UI tags turns a list
  that is not empty into one that is not empty.
\<close>

theorem interests_nonempty:
  "interests (fst (parsePrompt ps prompt)) \<noteq> []"
  unfolding interests_parsePrompt
  by (rule mapInterestsToUITags_nonempty) (rule extractInterests_nonempty)

text \<open>
  C3, as amended. For every parsed record and every answer that is not the name of a
  member of \<^verbatim>\<open>Object.prototype\<close>, the handler sets the confidence of the field to 0.95 and
  overwrites the field with the mapped answer when the field is the destination (the answer
  itself, for every answer), the accommodation type (camping for the camping label and the
  word \<open>camping\<close>, hotel for every other answer), the pace (the pace of the three labels,
  the previous pace for any other answer) or, for an answer whose leading integer is exact
  as a double, the duration (3, 5 or 7 days for the three labels; otherwise \<open>parseInt\<close> of
  the answer when that is a number other than 0; otherwise the previous duration when that
  is a number other than 0; otherwise the duration of the form). For the field interests
  the answer is appended to the list unless it is there already, and the confidence becomes
  the smaller of 0.95 and the old confidence plus 0.25. In every case \<open>overall\<close> is the mean
  of the five confidences and the other fields are unchanged. Answering one of the four
  fields again with the same answer changes nothing; a later answer for the destination or
  the accommodation type, and a later answer for the duration or the pace that the table or
  \<open>parseInt\<close> maps, gives the record that this answer alone would have given.
\<close>

theorem handleClarificationAnswer_merges:
  "handleClarificationAnswer p d F_destination a =
     Inr (p\<lparr>destination := a,
            confidence := (confidence p)
              \<lparr>c_destination := 0.95,
               overall := (0.95 + c_duration (confidence p) + c_interests (confidence p)
                  + c_accommodationType (confidence p) + c_pace (confidence p)) / 5\<rparr>\<rparr>)
   \<and> answer_again (handleClarificationAnswer p d F_destination a) d F_destination b =
       handleClarificationAnswer p d F_destination b
   \<and> handleClarificationAnswer p d F_interests a =
     Inr (p\<lparr>interests := (if a \<in> set (interests p) then interests p else interests p @ [a]),
            confidence := (confidence p)
              \<lparr>c_interests := min 0.95 (c_interests (confidence p) + 0.25),
               overall := (c_destination (confidence p) + c_duration (confidence p)
                  + min 0.95 (c_interests (confidence p) + 0.25)
                  + c_accommodationType (confidence p) + c_pace (confidence p)) / 5\<rparr>\<rparr>)
   \<and> (a \<notin> set object_prototype_keys \<longrightarrow>
        handleClarificationAnswer p d F_accommodationType a =
          Inr (p\<lparr>accommodationType :=
                   Some (if a = ''Camping (nature & adventure)'' \<or> a = ''camping''
                         then camping else hotel),
                 confidence := (confidence p)
                   \<lparr>c_accommodationType := 0.95,
                    overall := (c_destination (confidence p) + c_duration (confidence p)
                       + c_interests (confidence p) + 0.95 + c_pace (confidence p)) / 5\<rparr>\<rparr>)
      \<and> handleClarificationAnswer p d F_pace a =
          Inr (p\<lparr>pace :=
                   (if a = ''Relaxed (slow & peaceful)'' then Some relaxed
                    else if a = ''Moderate (balanced)'' then Some moderate
                    else if a = ''Fast (action-packed)'' then Some fast
                    else pace p),
                 confidence := (confidence p)
                   \<lparr>c_pace := 0.95,
                    overall := (c_destination (confidence p) + c_duration (confidence p)
                       + c_interests (confidence p) + c_accommodationType (confidence p)
                       + 0.95) / 5\<rparr>\<rparr>)
      \<and> answer_again (handleClarificationAnswer p d F_pace a) d F_pace a =
          handleClarificationAnswer p d F_pace a
      \<and> answer_again (handleClarificationAnswer p d F_accommodationType a) d
            F_accommodationType b =
          handleClarificationAnswer p d F_accommodationType b
      \<and> (b \<in> set (map fst paceMap) \<longrightarrow>
          answer_again (handleClarificationAnswer p d F_pace a) d F_pace b =
            handleClarificationAnswer p d F_pace b))
   \<and> (a \<notin> set object_prototype_keys \<and> exact_integer (parseInt a) \<longrightarrow>
        handleClarificationAnswer p d F_duration a =
          Inr (p\<lparr>duration :=
                   (if a = ''2-3 days (weekend)'' then Num 3
                    else if a = ''4-6 days (long trip)'' then Num 5
                    else if a = ''7+ days (extended journey)'' then Num 7
                    else if truthy (parseInt a) then parseInt a
                    else if truthy (duration p) then duration p
                    else d),
                 confidence := (confidence p)
                   \<lparr>c_duration := 0.95,
                    overall := (c_destination (confidence p) + 0.95
                       + c_interests (confidence p) + c_accommodationType (confidence p)
                       + c_pace (confidence p)) / 5\<rparr>\<rparr>)
      \<and> answer_again (handleClarificationAnswer p d F_duration a) d F_duration a =
          handleClarificationAnswer p d F_duration a
      \<and> (b \<notin> set object_prototype_keys \<and> exact_integer (parseInt b)
           \<and> (b \<in> set (map fst durationMap) \<or> truthy (parseInt b)) \<longrightarrow>
          answer_again (handleClarificationAnswer p d F_duration a) d F_duration b =
            handleClarificationAnswer p d F_duration b))"
  using handle_destination [of p d a] again_destination [of p d a b] handle_interests [of p d a]
    handle_duration [of a p d] handle_accommodation [of a p d] handle_pace [of a p d]
    again_duration_same [of p d a] again_pace_same [of p d a] again_accommodation [of a p d b]
    again_duration_mapped [of a b p d] again_pace_mapped [of a b p d]
  by blast

text \<open>
  The statement of C3 at the record parsed from \<open>hiking trip\<close>, the duration 3 of the form
  and typed answers: \<open>10 days\<close> gives the duration 10, the accommodation type hotel and
  the previous pace, each with confidence 0.95; \<open>soon\<close> keeps the previous duration 5; a
  second answer \<open>4\<close> for the duration and a second answer with the label of the moderate
  pace give what they give alone.
\<close>

theorem handleClarificationAnswer_merges_witness:
  "handleClarificationAnswer hiking_parsed (Num 3) F_duration ''10 days'' =
     Inr (hiking_parsed\<lparr>duration := Num 10,
            confidence := \<lparr>overall = 0.44, c_destination = 0.3, c_duration = 0.95,
              c_interests = 0.45, c_accommodationType = 0.2, c_pace = 0.3\<rparr>\<rparr>)
   \<and> handleClarificationAnswer hiking_parsed (Num 3) F_duration ''soon'' =
     Inr (hiking_parsed\<lparr>duration := Num 5,
            confidence := \<lparr>overall = 0.44, c_destination = 0.3, c_duration = 0.95,
              c_interests = 0.45, c_accommodationType = 0.2, c_pace = 0.3\<rparr>\<rparr>)
   \<and> handleClarificationAnswer hiking_parsed (Num 3) F_accommodationType ''10 days'' =
     Inr (hiking_parsed\<lparr>accommodationType := Some hotel,
            confidence := \<lparr>overall = 0.48, c_destination = 0.3, c_duration = 0.4,
              c_interests = 0.45, c_accommodationType = 0.95, c_pace = 0.3\<rparr>\<rparr>)
   \<and> handleClarificationAnswer hiking_parsed (Num 3) F_pace ''10 days'' =
     Inr (hiking_parsed\<lparr>pace := None,
            confidence := \<lparr>overall = 0.46, c_destination = 0.3, c_duration = 0.4,
              c_interests = 0.45, c_accommodationType = 0.2, c_pace = 0.95\<rparr>\<rparr>)
   \<and> answer_again (handleClarificationAnswer hiking_parsed (Num 3) F_duration ''10 days'')
         (Num 3) F_duration ''4'' =
       handleClarificationAnswer hiking_parsed (Num 3) F_duration ''4''
   \<and> answer_again (handleClarificationAnswer hiking_parsed (Num 3) F_pace ''10 days'')
         (Num 3) F_pace ''Moderate (balanced)'' =
       handleClarificationAnswer hiking_parsed (Num 3) F_pace ''Moderate (balanced)''"
proof -
  note m = handleClarificationAnswer_merges [where p = hiking_parsed and d = "Num 3"]
  have e10: "exact_integer (parseInt ''10 days'')" and esoon: "exact_integer (parseInt ''soon'')"
    and e4: "exact_integer (parseInt ''4'')"
    by (simp_all add: parseInt_10_days parseInt_soon parseInt_4 exact_integer_def)
  note other = m [where a = "''10 days''" and b = "''Moderate (balanced)''", THEN conjunct2,
    THEN conjunct2, THEN conjunct2, THEN conjunct1, THEN mp, OF typed_not_inherited(1)]
  note dur10 = m [where a = "''10 days''" and b = "''4''", THEN conjunct2, THEN conjunct2,
    THEN conjunct2, THEN conjunct2, THEN mp, OF conjI [OF typed_not_inherited(1) e10]]
  note dursoon = m [where a = "''soon''" and b = "''4''", THEN conjunct2, THEN conjunct2,
    THEN conjunct2, THEN conjunct2, THEN mp, OF conjI [OF typed_not_inherited(2) esoon]]
  have 1: "handleClarificationAnswer hiking_parsed (Num 3) F_duration ''10 days'' =
     Inr (hiking_parsed\<lparr>duration := Num 10,
            confidence := \<lparr>overall = 0.44, c_destination = 0.3, c_duration = 0.95,
              c_interests = 0.45, c_accommodationType = 0.2, c_pace = 0.3\<rparr>\<rparr>)"
    using dur10 [THEN conjunct1]
    by (simp add: parseInt_10_days truthy_def hiking_parsed_def)
  have 2: "handleClarificationAnswer hiking_parsed (Num 3) F_duration ''soon'' =
     Inr (hiking_parsed\<lparr>duration := Num 5,
            confidence := \<lparr>overall = 0.44, c_destination = 0.3, c_duration = 0.95,
              c_interests = 0.45, c_accommodationType = 0.2, c_pace = 0.3\<rparr>\<rparr>)"
    using dursoon [THEN conjunct1]
    by (simp add: parseInt_soon truthy_def hiking_parsed_def)
  have 3: "handleClarificationAnswer hiking_parsed (Num 3) F_accommodationType ''10 days'' =
     Inr (hiking_parsed\<lparr>accommodationType := Some hotel,
            confidence := \<lparr>overall = 0.48, c_destination = 0.3, c_duration = 0.4,
              c_interests = 0.45, c_accommodationType = 0.95, c_pace = 0.3\<rparr>\<rparr>)"
    using other [THEN conjunct1]
    by (simp add: hiking_parsed_def)
  have 4: "handleClarificationAnswer hiking_parsed (Num 3) F_pace ''10 days'' =
     Inr (hiking_parsed\<lparr>pace := None,
            confidence := \<lparr>overall = 0.46, c_destination = 0.3, c_duration = 0.4,
              c_interests = 0.45, c_accommodationType = 0.2, c_pace = 0.95\<rparr>\<rparr>)"
    using other [THEN conjunct2, THEN conjunct1]
    by (simp add: hiking_parsed_def)
  have "truthy (parseInt ''4'')"
    by (simp add: parseInt_4 truthy_def)
  with typed_not_inherited(3) e4
  have 5: "answer_again (handleClarificationAnswer hiking_parsed (Num 3) F_duration ''10 days'')
         (Num 3) F_duration ''4'' =
       handleClarificationAnswer hiking_parsed (Num 3) F_duration ''4''"
    using dur10 [THEN conjunct2, THEN conjunct2]
    by blast
  have "''Moderate (balanced)'' \<in> set (map fst paceMap)"
    by (simp add: paceMap_def)
  then have 6: "answer_again (handleClarificationAnswer hiking_parsed (Num 3) F_pace ''10 days'')
         (Num 3) F_pace ''Moderate (balanced)'' =
       handleClarificationAnswer hiking_parsed (Num 3) F_pace ''Moderate (balanced)''"
    using other [THEN conjunct2, THEN conjunct2, THEN conjunct2, THEN conjunct2]
    by blast
  from 1 2 3 4 5 6 show ?thesis
    by blast
qed

text \<open>
  C3 as stated fails for the field interests. On the record parsed from \<open>hiking trip\<close>
  (interests \<open>Mountains\<close>, confidence 0.45) the answer \<open>Food & Dining\<close> gives the confidence
  0.7, not 0.95, and the list \<open>Mountains, Food & Dining\<close>: the answer is added to the old
  value, which is kept. Only the second answer brings the confidence to 0.95.
\<close>

theorem interests_answer_accumulates:
  "handleClarificationAnswer hiking_parsed (Num 3) F_interests ''Food & Dining''
     = Inr hiking_answered
   \<and> c_interests (confidence hiking_answered) = 0.7
   \<and> c_interests (confidence hiking_answered) \<noteq> 0.95
   \<and> interests hiking_answered = [''Mountains'', ''Food & Dining'']
   \<and> handleClarificationAnswer hiking_answered (Num 3) F_interests ''Food & Dining''
     = Inr (hiking_answered\<lparr>confidence :=
          \<lparr>overall = 0.43, c_destination = 0.3, c_duration = 0.4, c_interests = 0.95,
           c_accommodationType = 0.2, c_pace = 0.3\<rparr>\<rparr>)"
  by (simp add: handle_interests hiking_parsed_def hiking_answered_def)

text \<open>
  C5, as amended. The confidence of the destination is 0.9 when an entry of the gazetteer
  occurs in the lower-cased text. Otherwise it is 0.7 when the destination is the capture
  of the first pattern (to, visit, explore, see, trip to, travel to, drive to, go to).
  Otherwise, when the lower-cased text holds none of these words followed by a white space
  character and then a letter, a white space character or a comma, it is 0.6 when the
  destination differs from \<open>California\<close>, which is then the capture of the pattern with
  around, through, across or of the pattern with in, from, and 0.3 when the destination is
  the default \<open>California\<close>. The statement leaves open the texts in which such a word occurs
  and the first pattern yields no destination.
\<close>

theorem destination_confidence:
  "(list_ex (str_includes (toLowerCase prompt)) destinations \<longrightarrow>
      c_destination (confidence (fst (parsePrompt ps prompt))) = 0.9)
   \<and> (\<not> list_ex (str_includes (toLowerCase prompt)) destinations
        \<and> destination_loop [to_pattern] (toLowerCase prompt) = Some d \<longrightarrow>
      destination (fst (parsePrompt ps prompt)) = d
      \<and> c_destination (confidence (fst (parsePrompt ps prompt))) = 0.7)
   \<and> (\<not> list_ex (str_includes (toLowerCase prompt)) destinations
        \<and> \<not> has_to_phrase (toLowerCase prompt)
        \<and> destination (fst (parsePrompt ps prompt)) \<noteq> ''California'' \<longrightarrow>
      c_destination (confidence (fst (parsePrompt ps prompt))) = 0.6
      \<and> destination_loop [around_pattern, in_pattern] (toLowerCase prompt)
          = Some (destination (fst (parsePrompt ps prompt))))
   \<and> (\<not> list_ex (str_includes (toLowerCase prompt)) destinations
        \<and> \<not> has_to_phrase (toLowerCase prompt)
        \<and> destination (fst (parsePrompt ps prompt)) = ''California'' \<longrightarrow>
      c_destination (confidence (fst (parsePrompt ps prompt))) = 0.3)"
proof (intro conjI impI)
  assume "list_ex (str_includes (toLowerCase prompt)) destinations"
  then show "c_destination (confidence (fst (parsePrompt ps prompt))) = 0.9"
    by (simp add: confidence_parsePrompt calculateConfidence_fields)
next
  assume a: "\<not> list_ex (str_includes (toLowerCase prompt)) destinations
        \<and> destination_loop [to_pattern] (toLowerCase prompt) = Some d"
  then show "destination (fst (parsePrompt ps prompt)) = d"
    using destination_by_to_pattern(1) by blast
  from a show "c_destination (confidence (fst (parsePrompt ps prompt))) = 0.7"
    using destination_by_to_pattern(2) by blast
next
  assume a: "\<not> list_ex (str_includes (toLowerCase prompt)) destinations
        \<and> \<not> has_to_phrase (toLowerCase prompt)
        \<and> destination (fst (parsePrompt ps prompt)) \<noteq> ''California''"
  then show "c_destination (confidence (fst (parsePrompt ps prompt))) = 0.6"
    using destination_without_to_phrase(2) [of prompt ps] by simp
  from a show "destination_loop [around_pattern, in_pattern] (toLowerCase prompt)
          = Some (destination (fst (parsePrompt ps prompt)))"
    using destination_without_to_phrase(1) [of prompt ps]
    by (cases "destination_loop [around_pattern, in_pattern] (toLowerCase prompt)") auto
next
  assume "\<not> list_ex (str_includes (toLowerCase prompt)) destinations
        \<and> \<not> has_to_phrase (toLowerCase prompt)
        \<and> destination (fst (parsePrompt ps prompt)) = ''California''"
  then show "c_destination (confidence (fst (parsePrompt ps prompt))) = 0.3"
    using destination_without_to_phrase(2) [of prompt ps] by simp
qed

text \<open>
  The statement of C5 at four texts, one for each case: the text of the road trip (the
  gazetteer), \<open>fly to Paris\<close> (the first pattern), \<open>drive around tuscany\<close> (the second
  pattern) and the empty text (the default).
\<close>

theorem destination_confidence_witness:
  "c_destination (confidence (fst (parsePrompt durationPatterns
      ''I want a 7-day road trip through California visiting national parks and wineries'')))
     = 0.9
   \<and> destination (fst (parsePrompt durationPatterns ''fly to Paris'')) = ''Paris''
   \<and> c_destination (confidence (fst (parsePrompt durationPatterns ''fly to Paris''))) = 0.7
   \<and> c_destination (confidence (fst (parsePrompt durationPatterns ''drive around tuscany'')))
     = 0.6
   \<and> destination_loop [around_pattern, in_pattern] (toLowerCase ''drive around tuscany'')
     = Some ''Tuscany''
   \<and> c_destination (confidence (fst (parsePrompt durationPatterns ''''))) = 0.3"
proof -
  have road: "c_destination (confidence (fst (parsePrompt durationPatterns
      ''I want a 7-day road trip through California visiting national parks and wineries'')))
     = 0.9"
    using destination_confidence [where prompt =
      "''I want a 7-day road trip through California visiting national parks and wineries''"
      and ps = durationPatterns]
    by (simp add: lower_road gazetteer_road del: destination_loop.simps)
  have paris: "destination (fst (parsePrompt durationPatterns ''fly to Paris'')) = ''Paris''
      \<and> c_destination (confidence (fst (parsePrompt durationPatterns ''fly to Paris''))) = 0.7"
    using destination_confidence [where prompt = "''fly to Paris''" and ps = durationPatterns
      and d = "''Paris''"]
    by (simp add: lower_paris gazetteer_paris loop_paris del: destination_loop.simps)
  have tuscany: "c_destination (confidence (fst (parsePrompt durationPatterns
        ''drive around tuscany''))) = 0.6
      \<and> destination_loop [around_pattern, in_pattern] (toLowerCase ''drive around tuscany'')
        = Some ''Tuscany''"
    using destination_confidence [where prompt = "''drive around tuscany''"
      and ps = durationPatterns]
    by (simp add: lower_tuscany gazetteer_tuscany phrase_tuscany dest_tuscany
          destination_parsePrompt test_to_phrase_iff [symmetric] del: destination_loop.simps)
  have empty: "c_destination (confidence (fst (parsePrompt durationPatterns ''''))) = 0.3"
    using destination_confidence [where prompt = "''''" and ps = durationPatterns]
    by (simp add: lower_empty gazetteer_empty phrase_empty dest_empty
          destination_parsePrompt test_to_phrase_iff [symmetric] del: destination_loop.simps)
  from road paris tuscany empty show ?thesis
    by blast
qed

text \<open>
  C5 as stated fails on the text \<open>drive around tuscany\<close>: no entry of the gazetteer occurs
  in it, the destination \<open>Tuscany\<close> is the capture of the pattern with around, through,
  across, and the confidence is 0.6 where the claim gives 0.7.
\<close>

theorem around_pattern_gives_0_6:
  "\<not> list_ex (str_includes (toLowerCase ''drive around tuscany'')) destinations
   \<and> destination_loop destination_patterns (toLowerCase ''drive around tuscany'')
       = Some ''Tuscany''
   \<and> destination (fst (parsePrompt durationPatterns ''drive around tuscany'')) = ''Tuscany''
   \<and> c_destination (confidence (fst (parsePrompt durationPatterns ''drive around tuscany'')))
       = 0.6
   \<and> c_destination (confidence (fst (parsePrompt durationPatterns ''drive around tuscany'')))
       \<noteq> 0.7"
  by (simp add: destination_parsePrompt confidence_parsePrompt calculateConfidence_fields
        lower_tuscany gazetteer_tuscany phrase_tuscany loop_tuscany dest_tuscany)

text \<open>
  A text of the case that the statement of C5 leaves open: on \<open>I want to go somewhere nice\<close>
  no pattern yields a destination (the capture \<open>go\<close> is too short) and the default
  \<open>California\<close> is returned, while the words \<open>to go\<close> pass the looser test of the
  confidence, which becomes 0.7.
\<close>

lemma phrase_without_extraction:
  "destination_loop destination_patterns (toLowerCase ''I want to go somewhere nice'') = None
   \<and> destination (fst (parsePrompt durationPatterns ''I want to go somewhere nice''))
       = ''California''
   \<and> c_destination (confidence (fst (parsePrompt durationPatterns
         ''I want to go somewhere nice''))) = 0.7"
  by (simp add: destination_parsePrompt confidence_parsePrompt calculateConfidence_fields
        lower_nice gazetteer_nice phrase_nice loop_nice dest_nice)

text \<open>
  C6. The confidence of the interests is the smaller of 0.9 and 0.3 + 0.15 times the number
  of terms matched in the text, so 0.3 for a text that matches none. The program returns
  0.75 for the empty text: it counts the length of the list that \<open>extractInterests\<close>
  returns, and for a text without any term that list is the default triple. No question
  for the interests is then asked, although nothing was found.
\<close>

theorem no_interest_gives_0_75:
  "foundInterests (toLowerCase '''') = []
   \<and> c_interests (confidence (fst (parsePrompt durationPatterns ''''))) = 0.75
   \<and> c_interests (confidence (fst (parsePrompt durationPatterns ''''))) \<noteq> 0.3
   \<and> filter (\<lambda>q. q_field q = F_interests)
        (generateClarificationQuestions (fst (parsePrompt durationPatterns ''''))) = []"
proof -
  have c: "c_interests (confidence (fst (parsePrompt durationPatterns ''''))) = 0.75"
    by (simp add: confidence_parsePrompt calculateConfidence_fields interests_empty)
  have "length (filter (\<lambda>q. q_field q = F_interests)
        (generateClarificationQuestions (fst (parsePrompt durationPatterns '''')))) = 0"
    unfolding generate_eq_pushed count_questions c by simp
  with c found_empty show ?thesis
    by simp
qed

end
